theory Spec2Isabelle
  imports Complex_Main
begin

section \<open>Data model of \<open>train_lyapunov.py\<close>\<close>

text \<open>
  Torch scalars and Python floats are read as real numbers: the properties below are
  about control flow and about which terms enter which sum, not about rounding. Whether
  the loss \<open>total_loss\<close> returns is a tensor or the Python float \<open>0.\<close> is kept apart
  (\<open>loss_is_tensor\<close> below), since \<open>loss.item()\<close> and \<open>loss.backward()\<close> exist on a tensor
  only.
  A state (a tensor row of \<open>x_dim\<close> entries) is a value of the type variable \<open>'x\<close>; a
  sample tensor of shape \<open>(n, x_dim)\<close> is the list of its \<open>n\<close> rows, so \<open>shape[0]\<close> is
  \<open>length\<close>. The network parameters (the state of \<open>lyapunov_relu\<close>) are a value of \<open>'p\<close>,
  a gradient buffer a value of \<open>'g\<close>, the state of a torch optimizer a value of \<open>'o\<close>.
\<close>

datatype error =
  AssertionError | AttributeError | IndexError | NameError | RuntimeError | TypeError
  | UnknownOptimizer

datatype ProjectGradientMethod = NONE | SUM' | ALTERNATE | EMPHASIZE_POSITIVITY

text \<open>\<open>train_utils.ProjectGradientMode\<close>, by the names \<open>train\<close> uses.\<close>

datatype ProjectGradientMode = BOTH | LOSS1 | LOSS2 | EMPHASIZE_LOSS1

text \<open>
  What the code reads from a solved Gurobi model: \<open>gurobi_model.ObjVal\<close>,
  \<open>gurobi_model.solCount\<close>, \<open>compute_objective_from_mip_data_and_solution(solution_number=j)\<close>
  and the values \<open>v.x\<close> of the state variables (element 1 of the tuple the
  \<open>..._as_milp\<close> call returns). The derivative problem also carries the values of the
  mode indicator variables (element 3 of its tuple).
\<close>

record 'x milp_solution =
  ObjVal :: real
  solCount :: nat
  objective_from_solution :: "nat \<Rightarrow> real"
  x_val :: 'x

record 'x derivative_milp_solution = "'x milp_solution" +
  mode_val :: "real list"

text \<open>
  The collaborators reached through \<open>self.lyapunov_hybrid_system\<close>, torch's autograd and
  the optimizers; none of them is in this repository's sources, so each is a field.
  \<open>solve_positivity \<theta> x_eq \<lambda> \<epsilon> pool\<close> stands for \<open>lyapunov_positivity_as_milp\<close>
  followed by \<open>setParam\<close> and \<open>optimize()\<close>; \<open>pool\<close> is the \<open>PoolSolutions\<close> parameter when
  the code sets it. \<open>loss_backward\<close> is the gradient \<open>loss.backward()\<close> leaves in the
  buffers, for the loss of the \<open>total_loss\<close> call with these parameters, samples and
  certificate weights; \<open>project_gradient\<close> is \<open>train_utils.project_gradient\<close> on the two
  halves of that loss. \<open>line_search_step opt closure \<theta> previous_loss\<close> is
  \<open>optimizer.step(closure, previous_loss)\<close> of a line search optimizer: its new state,
  the parameters at which it evaluated the closure (in order), the parameters it leaves
  in the network and the loss it returns.
\<close>

record ('p, 'x, 'g, 'o) collaborators =
  step_forward :: "'x \<Rightarrow> 'x"
  step_forward_mode :: "'x \<Rightarrow> nat \<Rightarrow> 'x"
  solve_positivity :: "'p \<Rightarrow> 'x \<Rightarrow> real \<Rightarrow> real \<Rightarrow> int option \<Rightarrow> 'x milp_solution"
  solve_derivative ::
    "'p \<Rightarrow> 'x \<Rightarrow> real \<Rightarrow> real \<Rightarrow> int option \<Rightarrow> 'x derivative_milp_solution"
  lyapunov_positivity_loss_at_samples ::
    "'p \<Rightarrow> 'x \<Rightarrow> 'x list \<Rightarrow> real \<Rightarrow> real \<Rightarrow> real \<Rightarrow> real"
  lyapunov_derivative_loss_at_samples_and_next_states ::
    "'p \<Rightarrow> real \<Rightarrow> real \<Rightarrow> 'x list \<Rightarrow> 'x list \<Rightarrow> 'x \<Rightarrow> real \<Rightarrow> real"
  loss_backward ::
    "'p \<Rightarrow> 'x list \<Rightarrow> 'x list \<Rightarrow> 'x list \<Rightarrow> real option \<Rightarrow> real option \<Rightarrow> 'g"
  project_gradient ::
    "'p \<Rightarrow> 'x list \<Rightarrow> 'x list \<Rightarrow> 'x list \<Rightarrow> ProjectGradientMode \<Rightarrow> 'g"
  adam :: "'p \<Rightarrow> real \<Rightarrow> 'o"
  sgd :: "'p \<Rightarrow> real \<Rightarrow> real \<Rightarrow> 'o"
  optimizer_step :: "'o \<Rightarrow> 'p \<Rightarrow> 'g \<Rightarrow> 'o \<times> 'p"
  line_search_gd :: "'p \<Rightarrow> real \<Rightarrow> real \<Rightarrow> real \<Rightarrow> real \<Rightarrow> 'o"
  line_search_adam :: "'p \<Rightarrow> real \<Rightarrow> real \<Rightarrow> real \<Rightarrow> 'o"
  line_search_step ::
    "'o \<Rightarrow> ('p \<Rightarrow> error + real) \<Rightarrow> 'p \<Rightarrow> real \<Rightarrow> 'o \<times> 'p list \<times> 'p \<times> real"

text \<open>
  The fields \<open>__init__\<close> sets on \<open>self\<close> (without \<open>output_flag\<close> and
  \<open>summary_writer_folder\<close>, which only print and log). \<open>max_iterations\<close> is a natural
  number: a negative value gives empty history lists and no iteration, as zero does.
  \<open>min_improvement\<close> is read by \<open>train_with_line_search\<close> and not set by \<open>__init__\<close>:
  \<open>None\<close> is the missing attribute.
\<close>

record 'x TrainLyapunovReLU =
  V_lambda :: real
  x_equilibrium :: 'x
  learning_rate :: real
  max_iterations :: nat
  lyapunov_positivity_sample_cost_weight :: real
  lyapunov_positivity_sample_margin :: real
  lyapunov_derivative_sample_cost_weight :: real
  lyapunov_derivative_sample_margin :: real
  lyapunov_positivity_mip_cost_weight :: real
  lyapunov_positivity_mip_pool_solutions :: int
  lyapunov_derivative_mip_cost_weight :: real
  lyapunov_derivative_mip_pool_solutions :: int
  lyapunov_positivity_mip_cost_decay_rate :: real
  lyapunov_derivative_mip_cost_decay_rate :: real
  lyapunov_positivity_epsilon :: real
  lyapunov_derivative_epsilon :: real
  lyapunov_positivity_convergence_tol :: real
  lyapunov_derivative_convergence_tol :: real
  optimizer :: string
  project_gradient_method :: ProjectGradientMethod
  momentum :: real
  loss_minimal_decrement :: real
  add_adversarial_state_to_training :: bool
  max_sample_pool_size :: int
  min_improvement :: "real option"

text \<open>The values \<open>__init__\<close> assigns.\<close>

definition init :: "real \<Rightarrow> 'x \<Rightarrow> 'x TrainLyapunovReLU" where
  "init lam x_eq =
    \<lparr>V_lambda = lam, x_equilibrium = x_eq, learning_rate = 3 / 1000,
     max_iterations = 1000,
     lyapunov_positivity_sample_cost_weight = 1,
     lyapunov_positivity_sample_margin = 0,
     lyapunov_derivative_sample_cost_weight = 1,
     lyapunov_derivative_sample_margin = 0,
     lyapunov_positivity_mip_cost_weight = 10,
     lyapunov_positivity_mip_pool_solutions = 10,
     lyapunov_derivative_mip_cost_weight = 10,
     lyapunov_derivative_mip_pool_solutions = 10,
     lyapunov_positivity_mip_cost_decay_rate = 9 / 10,
     lyapunov_derivative_mip_cost_decay_rate = 9 / 10,
     lyapunov_positivity_epsilon = 1 / 100,
     lyapunov_derivative_epsilon = 1 / 100,
     lyapunov_positivity_convergence_tol = 1 / 1000000,
     lyapunov_derivative_convergence_tol = 3 / 100000,
     optimizer = ''Adam'',
     project_gradient_method = NONE,
     momentum = 0,
     loss_minimal_decrement = 0,
     add_adversarial_state_to_training = False,
     max_sample_pool_size = 500,
     min_improvement = None\<rparr>"

section \<open>\<open>total_loss\<close>\<close>

text \<open>
  The calls \<open>total_loss\<close> makes on its collaborators, in the order it makes them: the log
  is what a stub with a call counter would see.
\<close>

datatype call =
  PositivityOptimize | DerivativeOptimize
  | PositivityLossAtSamples | DerivativeLossAtSamples
  | PositivityObjective nat | DerivativeObjective nat
  | StepForward

text \<open>The calls that run the solver.\<close>

definition is_solver_call :: "call \<Rightarrow> bool" where
  "is_solver_call c = (c = PositivityOptimize \<or> c = DerivativeOptimize)"

text \<open>Python's \<open>xs[i:]\<close> for an integer \<open>i\<close>: a negative \<open>i\<close> counts from the end.\<close>

definition slice_from :: "int \<Rightarrow> 'a list \<Rightarrow> 'a list" where
  "slice_from i xs =
    (if i < 0 then drop (nat (int (length xs) + i)) xs else drop (nat i) xs)"

definition set_weight :: "real option \<Rightarrow> real \<Rightarrow> real" where
  "set_weight val default_val = (case val of Some v \<Rightarrow> v | None \<Rightarrow> default_val)"

text \<open>
  \<open>samples[-max_sample_pool_size:]\<close> when the pool is longer than the window, the pool
  itself otherwise.
\<close>

definition in_pool :: "int \<Rightarrow> nat \<Rightarrow> 'a list \<Rightarrow> 'a list" where
  "in_pool pool_size n xs = (if int n > pool_size then slice_from (- pool_size) xs else xs)"

text \<open>
  One round of \<open>for mip_sol_number in range(pool_solutions)\<close>: the accumulated loss and
  the calls made so far. \<open>cost j\<close> is what the round multiplies the weight and the decay
  with: \<open>-compute_objective_from_mip_data_and_solution(solution_number=j)\<close> in the
  positivity loop, the objective itself in the derivative loop.
\<close>

definition mip_loss_step ::
    "real \<Rightarrow> real \<Rightarrow> nat \<Rightarrow> (nat \<Rightarrow> real) \<Rightarrow> (nat \<Rightarrow> call) \<Rightarrow>
     real \<times> call list \<Rightarrow> nat \<Rightarrow> real \<times> call list" where
  "mip_loss_step weight decay_rate sol_count cost ev acc mip_sol_number =
    (if mip_sol_number < sol_count
     then (fst acc + weight * decay_rate ^ mip_sol_number * cost mip_sol_number,
           snd acc @ [ev mip_sol_number])
     else acc)"

definition mip_loss_loop ::
    "real \<Rightarrow> real \<Rightarrow> int \<Rightarrow> nat \<Rightarrow> (nat \<Rightarrow> real) \<Rightarrow> (nat \<Rightarrow> call) \<Rightarrow>
     real \<times> call list" where
  "mip_loss_loop weight decay_rate pool_solutions sol_count cost ev =
    (if weight \<noteq> 0
     then foldl (mip_loss_step weight decay_rate sol_count cost ev) (0, [])
            [0..<nat pool_solutions]
     else (0, []))"


text \<open>
  \<open>PoolSolutions\<close> is set (together with \<open>PoolSearchMode\<close>) only when more than one
  solution is asked for.
\<close>

definition pool_param :: "int \<Rightarrow> int option" where
  "pool_param pool_solutions = (if pool_solutions > 1 then Some pool_solutions else None)"

text \<open>
  \<open>np.argwhere(np.array([v.x for v in ...]) > 0.99)[0][0]\<close>: the first index whose value
  exceeds 0.99; indexing the empty result raises.
\<close>

definition adversarial_mode :: "real list \<Rightarrow> error + nat" where
  "adversarial_mode vs =
    (case filter (\<lambda>i. vs ! i > 99 / 100) [0..<length vs] of
       [] \<Rightarrow> Inl IndexError
     | i # _ \<Rightarrow> Inr i)"

text \<open>
  The two solved problems of a call of \<open>total_loss\<close>: the local variables
  \<open>lyapunov_positivity_mip\<close> and \<open>lyapunov_derivative_mip\<close> after \<open>optimize()\<close>.
\<close>

definition lyapunov_positivity_mip ::
    "'x TrainLyapunovReLU \<Rightarrow> ('p, 'x, 'g, 'o) collaborators \<Rightarrow> 'p \<Rightarrow> 'x milp_solution" where
  "lyapunov_positivity_mip self sys \<theta> =
    solve_positivity sys \<theta> (x_equilibrium self) (V_lambda self)
      (lyapunov_positivity_epsilon self)
      (pool_param (lyapunov_positivity_mip_pool_solutions self))"

definition lyapunov_derivative_mip ::
    "'x TrainLyapunovReLU \<Rightarrow> ('p, 'x, 'g, 'o) collaborators \<Rightarrow> 'p \<Rightarrow>
     'x derivative_milp_solution" where
  "lyapunov_derivative_mip self sys \<theta> =
    solve_derivative sys \<theta> (x_equilibrium self) (V_lambda self)
      (lyapunov_derivative_epsilon self)
      (pool_param (lyapunov_derivative_mip_pool_solutions self))"

text \<open>The ten values \<open>total_loss\<close> returns, and the log of its calls.\<close>

record 'x total_loss_return =
  loss :: real
  positivity_mip_objective :: real
  derivative_mip_objective :: real
  positivity_sample_loss :: real
  derivative_sample_loss :: real
  positivity_mip_loss :: real
  derivative_mip_loss :: real
  positivity_state_samples_ret :: "'x list"
  derivative_state_samples_ret :: "'x list"
  derivative_state_samples_next_ret :: "'x list"
  calls :: "call list"

text \<open>
  \<open>total_loss\<close>. The shape assertions on \<open>x_dim\<close> hold by the type \<open>'x\<close> of a row; the
  assertion that there is one next state per derivative sample is the first branch. Both
  problems are solved whatever the weights are. The block that rounds the ReLU
  activation pattern of the derivative problem only feeds \<open>print\<close> and is left out, as is
  \<open>setParam(SolutionNumber, ...)\<close>, which no later read depends on.
\<close>

definition total_loss ::
    "'x TrainLyapunovReLU \<Rightarrow> ('p, 'x, 'g, 'o) collaborators \<Rightarrow> 'p \<Rightarrow>
     'x list \<Rightarrow> 'x list \<Rightarrow> 'x list \<Rightarrow>
     real option \<Rightarrow> real option \<Rightarrow> real option \<Rightarrow> real option \<Rightarrow>
     error + 'x total_loss_return" where
  "total_loss self sys \<theta> positivity_state_samples derivative_state_samples
      derivative_state_samples_next
      positivity_sample_cost_weight derivative_sample_cost_weight
      positivity_mip_cost_weight derivative_mip_cost_weight =
    (if length derivative_state_samples_next \<noteq> length derivative_state_samples
     then Inl AssertionError
     else
       let positivity_mip = lyapunov_positivity_mip self sys \<theta>;
           derivative_mip = lyapunov_derivative_mip self sys \<theta>;
           w_pos_sample = set_weight positivity_sample_cost_weight
             (lyapunov_positivity_sample_cost_weight self);
           pos_sample =
             (if w_pos_sample \<noteq> 0 \<and> length positivity_state_samples > 0
              then (w_pos_sample *
                      lyapunov_positivity_loss_at_samples sys \<theta> (x_equilibrium self)
                        (in_pool (max_sample_pool_size self)
                           (length positivity_state_samples) positivity_state_samples)
                        (V_lambda self) (lyapunov_positivity_epsilon self)
                        (lyapunov_positivity_sample_margin self),
                    [PositivityLossAtSamples])
              else (0, []));
           w_der_sample = set_weight derivative_sample_cost_weight
             (lyapunov_derivative_sample_cost_weight self);
           der_sample =
             (if w_der_sample \<noteq> 0 \<and> length derivative_state_samples > 0
              then (w_der_sample *
                      lyapunov_derivative_loss_at_samples_and_next_states sys \<theta>
                        (V_lambda self) (lyapunov_derivative_epsilon self)
                        (in_pool (max_sample_pool_size self)
                           (length derivative_state_samples) derivative_state_samples)
                        (in_pool (max_sample_pool_size self)
                           (length derivative_state_samples) derivative_state_samples_next)
                        (x_equilibrium self) (lyapunov_derivative_sample_margin self),
                    [DerivativeLossAtSamples])
              else (0, []));
           pos_mip =
             mip_loss_loop
               (set_weight positivity_mip_cost_weight (lyapunov_positivity_mip_cost_weight self))
               (lyapunov_positivity_mip_cost_decay_rate self)
               (lyapunov_positivity_mip_pool_solutions self)
               (solCount positivity_mip)
               (\<lambda>j. - objective_from_solution positivity_mip j)
               PositivityObjective;
           der_mip =
             mip_loss_loop
               (set_weight derivative_mip_cost_weight (lyapunov_derivative_mip_cost_weight self))
               (lyapunov_derivative_mip_cost_decay_rate self)
               (lyapunov_derivative_mip_pool_solutions self)
               (solCount derivative_mip)
               (objective_from_solution derivative_mip)
               DerivativeObjective;
           ret =
             \<lparr>loss = fst pos_sample + fst der_sample + fst pos_mip + fst der_mip,
              positivity_mip_objective = ObjVal positivity_mip,
              derivative_mip_objective = ObjVal derivative_mip,
              positivity_sample_loss = fst pos_sample,
              derivative_sample_loss = fst der_sample,
              positivity_mip_loss = fst pos_mip,
              derivative_mip_loss = fst der_mip,
              positivity_state_samples_ret = positivity_state_samples,
              derivative_state_samples_ret = derivative_state_samples,
              derivative_state_samples_next_ret = derivative_state_samples_next,
              calls = [PositivityOptimize, DerivativeOptimize] @ snd pos_sample @
                snd der_sample @ snd pos_mip @ snd der_mip\<rparr>
       in if add_adversarial_state_to_training self
          then (case adversarial_mode (mode_val derivative_mip) of
                  Inl e \<Rightarrow> Inl e
                | Inr derivative_mip_adversarial_mode \<Rightarrow>
                    Inr (ret
                      \<lparr>positivity_state_samples_ret :=
                         positivity_state_samples @ [x_val positivity_mip],
                       derivative_state_samples_ret :=
                         derivative_state_samples @ [x_val derivative_mip],
                       derivative_state_samples_next_ret :=
                         derivative_state_samples_next @
                           [step_forward_mode sys (x_val derivative_mip)
                              derivative_mip_adversarial_mode],
                       calls := calls ret @ [StepForward]\<rparr>))
          else Inr ret)"

text \<open>
  Each loss term starts as the Python float \<open>0.\<close> and becomes a tensor when a
  collaborator's value is multiplied in: the sample loss of a term whose branch is
  taken, or the objective of a ranked solution. So the loss returned is a tensor
  exactly when the call log holds one of these calls; otherwise it is the float \<open>0.\<close>,
  which has neither \<open>item()\<close> nor \<open>backward()\<close>.
\<close>

definition yields_tensor :: "call \<Rightarrow> bool" where
  "yields_tensor c =
    (case c of
       PositivityLossAtSamples \<Rightarrow> True
     | DerivativeLossAtSamples \<Rightarrow> True
     | PositivityObjective j \<Rightarrow> True
     | DerivativeObjective j \<Rightarrow> True
     | _ \<Rightarrow> False)"

definition loss_is_tensor :: "'x total_loss_return \<Rightarrow> bool" where
  "loss_is_tensor r = list_ex yields_tensor (calls r)"

text \<open>
  \<open>torch.stack([step_forward(samples[i]) for i in range(samples.shape[0])], dim=0)\<close>,
  with which each of the three training functions starts: \<open>torch.stack\<close> raises on the
  empty list an empty sample tensor gives.
\<close>

definition stack_next_states ::
    "('p, 'x, 'g, 'o) collaborators \<Rightarrow> 'x list \<Rightarrow> error + 'x list" where
  "stack_next_states sys state_samples_all =
    (if state_samples_all = [] then Inl RuntimeError
     else Inr (map (step_forward sys) state_samples_all))"

section \<open>\<open>train\<close>\<close>

text \<open>
  What every training loop carries: its counter, the parameters of
  \<open>lyapunov_relu\<close> and the optimizer, both of which the loop mutates. \<open>train\<close> adds its
  other local variables. A history list is the preallocated \<open>[None] * max_iterations\<close>;
  \<open>project_gradient_mode\<close> is \<open>None\<close> until the loop first assigns it.
\<close>

record ('p, 'o) network_state =
  iter_count :: nat
  relu :: 'p
  optimizer_state :: 'o

record ('p, 'x, 'g, 'o) train_state = "('p, 'o) network_state" +
  positivity_state_samples :: "'x list"
  derivative_state_samples :: "'x list"
  derivative_state_samples_next :: "'x list"
  lyapunov_positivity_mip_costs :: "real option list"
  lyapunov_derivative_mip_costs :: "real option list"
  losses :: "real option list"
  project_gradient_mode :: "ProjectGradientMode option"
  relu_params :: "'p option list"
  gradients :: "'g option list"

datatype ('s, 'r) outcome = Continue 's | Return 's 'r

type_synonym train_return = "bool \<times> real option list \<times> real option list \<times> real option list"

text \<open>
  The \<open>if\<close>/\<open>elif\<close> chain that picks the projection mode. Reading the variable before
  any assignment would be a \<open>NameError\<close>.
\<close>

definition next_project_gradient_mode ::
    "ProjectGradientMethod \<Rightarrow> nat \<Rightarrow> ProjectGradientMode option \<Rightarrow>
     error + ProjectGradientMode option" where
  "next_project_gradient_mode method i mode =
    (case method of
       SUM' \<Rightarrow> Inr (Some BOTH)
     | ALTERNATE \<Rightarrow>
         (if i = 0 then Inr (Some LOSS2)
          else (case mode of
                  None \<Rightarrow> Inl NameError
                | Some m \<Rightarrow> Inr (Some (if m = LOSS2 then LOSS1 else LOSS2))))
     | EMPHASIZE_POSITIVITY \<Rightarrow> Inr (Some EMPHASIZE_LOSS1)
     | NONE \<Rightarrow> Inr mode)"

text \<open>
  The convergence test of \<open>train\<close>.
\<close>

definition train_converged :: "'x TrainLyapunovReLU \<Rightarrow> real \<Rightarrow> real \<Rightarrow> bool" where
  "train_converged self positivity_cost derivative_cost =
    (positivity_cost \<ge> - lyapunov_positivity_convergence_tol self \<and>
     derivative_cost \<le> lyapunov_derivative_convergence_tol self)"

text \<open>
  The body of \<open>while iter_count < self.max_iterations\<close>. \<open>loss.item()\<close> raises when the
  loss is the float \<open>0.\<close>. The gradient is taken of the
  loss of this iteration's \<open>total_loss\<close> call, so at the samples the call was given.
  The index \<open>iter_count\<close> is in range of the history lists, which have
  \<open>max_iterations\<close> entries.
\<close>

definition train_iteration ::
    "'x TrainLyapunovReLU \<Rightarrow> ('p, 'x, 'g, 'o) collaborators \<Rightarrow> ('p, 'x, 'g, 'o) train_state \<Rightarrow>
     error + (('p, 'x, 'g, 'o) train_state, train_return) outcome" where
  "train_iteration self sys s =
    (case total_loss self sys (relu s) (positivity_state_samples s)
            (derivative_state_samples s) (derivative_state_samples_next s)
            None None None None of
       Inl e \<Rightarrow> Inl e
     | Inr r \<Rightarrow>
         if \<not> loss_is_tensor r then Inl AttributeError
         else
         let i = iter_count s;
             s1 = s\<lparr>lyapunov_positivity_mip_costs :=
                      (lyapunov_positivity_mip_costs s)[i := Some (positivity_mip_objective r)],
                    lyapunov_derivative_mip_costs :=
                      (lyapunov_derivative_mip_costs s)[i := Some (derivative_mip_objective r)],
                    positivity_state_samples := positivity_state_samples_ret r,
                    derivative_state_samples := derivative_state_samples_ret r,
                    derivative_state_samples_next := derivative_state_samples_next_ret r,
                    losses := (losses s)[i := Some (loss r)]\<rparr>
         in if train_converged self (positivity_mip_objective r) (derivative_mip_objective r)
            then Inr (Return s1
                   (True, take (i + 1) (losses s1),
                    take (i + 1) (lyapunov_positivity_mip_costs s1),
                    take (i + 1) (lyapunov_derivative_mip_costs s1)))
            else
              (case next_project_gradient_mode (project_gradient_method self) i
                      (project_gradient_mode s) of
                 Inl e \<Rightarrow> Inl e
               | Inr mode \<Rightarrow>
                   (case (if project_gradient_method self = NONE
                          then Inr (loss_backward sys (relu s) (positivity_state_samples s)
                                 (derivative_state_samples s) (derivative_state_samples_next s)
                                 None None)
                          else (case mode of
                                  None \<Rightarrow> Inl NameError
                                | Some m \<Rightarrow>
                                    Inr (project_gradient sys (relu s)
                                      (positivity_state_samples s) (derivative_state_samples s)
                                      (derivative_state_samples_next s) m))) of
                      Inl e \<Rightarrow> Inl e
                    | Inr g \<Rightarrow>
                        let stepped = optimizer_step sys (optimizer_state s) (relu s) g
                        in Inr (Continue
                             (s1\<lparr>project_gradient_mode := mode,
                                 relu_params := (relu_params s)[i := Some (relu s)],
                                 gradients := (gradients s)[i := Some g],
                                 optimizer_state := fst stepped,
                                 relu := snd stepped,
                                 iter_count := i + 1\<rparr>)))))"

lemma train_iteration_iter_count:
  "train_iteration self sys s = Inr (Continue s') \<Longrightarrow> iter_count s' = Suc (iter_count s)"
  by (auto simp: train_iteration_def Let_def split: sum.splits if_splits option.splits)

function train_loop ::
    "'x TrainLyapunovReLU \<Rightarrow> ('p, 'x, 'g, 'o) collaborators \<Rightarrow> ('p, 'x, 'g, 'o) train_state \<Rightarrow>
     error + ('p, 'x, 'g, 'o) train_state \<times> train_return" where
  "train_loop self sys s =
    (if iter_count s < max_iterations self
     then (case train_iteration self sys s of
             Inl e \<Rightarrow> Inl e
           | Inr (Return s' res) \<Rightarrow> Inr (s', res)
           | Inr (Continue s') \<Rightarrow> train_loop self sys s')
     else Inr (s, (False, losses s, lyapunov_positivity_mip_costs s,
                   lyapunov_derivative_mip_costs s)))"
  by pat_completeness auto
termination
  by (relation "measure (\<lambda>(self, sys, s). max_iterations self - iter_count s)")
    (auto dest: train_iteration_iter_count)

text \<open>
  The state \<open>train\<close> enters its loop with, for a given optimizer: the samples cloned
  into both pools and one next state per derivative sample. \<open>train\<close> gets here only
  with a sample tensor that is not empty, see \<open>stack_next_states\<close>.
\<close>

definition train_init ::
    "'x TrainLyapunovReLU \<Rightarrow> ('p, 'x, 'g, 'o) collaborators \<Rightarrow> 'p \<Rightarrow> 'o \<Rightarrow> 'x list \<Rightarrow>
     ('p, 'x, 'g, 'o) train_state" where
  "train_init self sys \<theta> opt state_samples_all =
    \<lparr>iter_count = 0, relu = \<theta>, optimizer_state = opt,
     positivity_state_samples = state_samples_all,
     derivative_state_samples = state_samples_all,
     derivative_state_samples_next = map (step_forward sys) state_samples_all,
     lyapunov_positivity_mip_costs = replicate (max_iterations self) None,
     lyapunov_derivative_mip_costs = replicate (max_iterations self) None,
     losses = replicate (max_iterations self) None,
     project_gradient_mode = None,
     relu_params = replicate (max_iterations self) None,
     gradients = replicate (max_iterations self) None\<rparr>"

text \<open>
  The optimizer \<open>train\<close> builds from \<open>self.optimizer\<close>; any other string raises.
\<close>

definition train_optimizer ::
    "'x TrainLyapunovReLU \<Rightarrow> ('p, 'x, 'g, 'o) collaborators \<Rightarrow> 'p \<Rightarrow> error + 'o" where
  "train_optimizer self sys \<theta> =
    (if optimizer self = ''Adam'' then Inr (adam sys \<theta> (learning_rate self))
     else if optimizer self = ''SGD''
     then Inr (sgd sys \<theta> (learning_rate self) (momentum self))
     else Inl UnknownOptimizer)"

text \<open>
  \<open>train\<close>: the final state (the network is mutated in place, so the caller sees its
  parameters) and the tuple returned. The next states are stacked before the optimizer
  is built; \<open>train_init\<close> holds the same list.
\<close>

definition train ::
    "'x TrainLyapunovReLU \<Rightarrow> ('p, 'x, 'g, 'o) collaborators \<Rightarrow> 'p \<Rightarrow> 'x list \<Rightarrow>
     error + ('p, 'x, 'g, 'o) train_state \<times> train_return" where
  "train self sys \<theta> state_samples_all =
    (case stack_next_states sys state_samples_all of
       Inl e \<Rightarrow> Inl e
     | Inr stacked \<Rightarrow>
         (case train_optimizer self sys \<theta> of
            Inl e \<Rightarrow> Inl e
          | Inr opt \<Rightarrow> train_loop self sys (train_init self sys \<theta> opt state_samples_all)))"

text \<open>
  The states at the start of the iterations of a run of the loop that begins in \<open>s0\<close>.
\<close>

inductive train_reaches ::
    "'x TrainLyapunovReLU \<Rightarrow> ('p, 'x, 'g, 'o) collaborators \<Rightarrow>
     ('p, 'x, 'g, 'o) train_state \<Rightarrow> ('p, 'x, 'g, 'o) train_state \<Rightarrow> bool"
  for self sys s0 where
    start: "train_reaches self sys s0 s0"
  | step: "train_reaches self sys s0 s \<Longrightarrow> iter_count s < max_iterations self \<Longrightarrow>
           train_iteration self sys s = Inr (Continue s') \<Longrightarrow> train_reaches self sys s0 s'"

section \<open>\<open>train_with_line_search\<close>\<close>

record ('p, 'o) line_search_state = "('p, 'o) network_state" +
  ls_positivity_mip_costs :: "real option list"
  ls_derivative_mip_costs :: "real option list"
  ls_losses :: "real option list"
  ls_relu_params :: "'p option list"

text \<open>
  The convergence test of \<open>train_with_line_search\<close>, as its \<open>if\<close> is written.
\<close>

definition line_search_converged :: "'x TrainLyapunovReLU \<Rightarrow> real \<Rightarrow> real \<Rightarrow> bool" where
  "line_search_converged self positivity_cost derivative_cost =
    (positivity_cost < lyapunov_positivity_convergence_tol self \<and>
     derivative_cost < lyapunov_derivative_convergence_tol self)"

text \<open>
  One call of \<open>closure()\<close> with the network at \<open>\<theta>\<close>: the loss, and the two objective values
  stored at index \<open>iter_count\<close>. The pools \<open>total_loss\<close> returns are dropped.
\<close>

definition closure ::
    "'x TrainLyapunovReLU \<Rightarrow> ('p, 'x, 'g, 'o) collaborators \<Rightarrow> 'x list \<Rightarrow> 'x list \<Rightarrow> 'x list \<Rightarrow>
     'p \<Rightarrow> error + real" where
  "closure self sys ps ds dn \<theta> =
    (case total_loss self sys \<theta> ps ds dn None None None None of
       Inl e \<Rightarrow> Inl e
     | Inr r \<Rightarrow> Inr (loss r))"

fun closure_calls ::
    "'x TrainLyapunovReLU \<Rightarrow> ('p, 'x, 'g, 'o) collaborators \<Rightarrow> 'x list \<Rightarrow> 'x list \<Rightarrow> 'x list \<Rightarrow>
     'p list \<Rightarrow> ('p, 'o) line_search_state \<Rightarrow> error + ('p, 'o) line_search_state" where
  "closure_calls self sys ps ds dn [] s = Inr s"
| "closure_calls self sys ps ds dn (\<theta> # \<theta>s) s =
    (case total_loss self sys \<theta> ps ds dn None None None None of
       Inl e \<Rightarrow> Inl e
     | Inr r \<Rightarrow>
         if iter_count s < length (ls_positivity_mip_costs s)
         then closure_calls self sys ps ds dn \<theta>s
                (s\<lparr>ls_positivity_mip_costs :=
                     (ls_positivity_mip_costs s)[iter_count s := Some (positivity_mip_objective r)],
                   ls_derivative_mip_costs :=
                     (ls_derivative_mip_costs s)[iter_count s := Some (derivative_mip_objective r)]\<rparr>)
         else Inl IndexError)"

text \<open>
  The body of the \<open>while\<close> loop. The optimizer evaluates the closure at the parameters
  it tries; comparing an objective that no closure call stored (\<open>None\<close>) with the
  tolerance is a \<open>TypeError\<close>.
\<close>

definition line_search_iteration ::
    "'x TrainLyapunovReLU \<Rightarrow> ('p, 'x, 'g, 'o) collaborators \<Rightarrow> 'x list \<Rightarrow> 'x list \<Rightarrow> 'x list \<Rightarrow>
     ('p, 'o) line_search_state \<Rightarrow> error + (('p, 'o) line_search_state, bool) outcome" where
  "line_search_iteration self sys ps ds dn s =
    (let i = iter_count s in
     case ls_losses s ! (i - 1) of
       None \<Rightarrow> Inl TypeError
     | Some previous \<Rightarrow>
         (case line_search_step sys (optimizer_state s) (closure self sys ps ds dn) (relu s)
                 previous of
            (opt, tried, \<theta>, l) \<Rightarrow>
              (case closure_calls self sys ps ds dn tried s of
                 Inl e \<Rightarrow> Inl e
               | Inr s1 \<Rightarrow>
                   let s2 = s1\<lparr>optimizer_state := opt, relu := \<theta>,
                              ls_losses := (ls_losses s1)[i := Some l],
                              ls_relu_params := (ls_relu_params s1)[i := Some \<theta>]\<rparr>
                   in (case (ls_positivity_mip_costs s2 ! i, ls_derivative_mip_costs s2 ! i) of
                         (Some positivity_cost, Some derivative_cost) \<Rightarrow>
                           if line_search_converged self positivity_cost derivative_cost
                           then Inr (Return s2 True)
                           else Inr (Continue (s2\<lparr>iter_count := i + 1\<rparr>))
                       | _ \<Rightarrow> Inl TypeError))))"

lemma closure_calls_iter_count:
  "closure_calls self sys ps ds dn \<theta>s s = Inr s' \<Longrightarrow> iter_count s' = iter_count s"
  by (induction \<theta>s arbitrary: s) (auto split: sum.splits if_splits)

lemma line_search_iteration_iter_count:
  "line_search_iteration self sys ps ds dn s = Inr (Continue s') \<Longrightarrow>
   iter_count s' = Suc (iter_count s)"
  by (auto simp: line_search_iteration_def Let_def
      split: sum.splits if_splits option.splits prod.splits
      dest: closure_calls_iter_count)

function line_search_loop ::
    "'x TrainLyapunovReLU \<Rightarrow> ('p, 'x, 'g, 'o) collaborators \<Rightarrow> 'x list \<Rightarrow> 'x list \<Rightarrow> 'x list \<Rightarrow>
     ('p, 'o) line_search_state \<Rightarrow> error + ('p, 'o) line_search_state \<times> bool" where
  "line_search_loop self sys ps ds dn s =
    (if iter_count s < max_iterations self
     then (case line_search_iteration self sys ps ds dn s of
             Inl e \<Rightarrow> Inl e
           | Inr (Return s' res) \<Rightarrow> Inr (s', res)
           | Inr (Continue s') \<Rightarrow> line_search_loop self sys ps ds dn s')
     else Inr (s, False))"
  by pat_completeness auto
termination
  by (relation "measure (\<lambda>(self, sys, ps, ds, dn, s). max_iterations self - iter_count s)")
    (auto dest: line_search_iteration_iter_count)

text \<open>
  \<open>train_with_line_search\<close>: the parameters it leaves in the network and the flag it
  returns. The first closure call stores at index 0, which an empty history list does
  not have, and \<open>loss.backward()\<close> on its result raises when that is the float \<open>0.\<close>. Inside
  the loop the loss is the one the optimizer returns, a collaborator's tensor. With an \<open>optimizer\<close> string that is neither \<open>GD\<close> nor
  \<open>LineSearchAdam\<close> the variable \<open>optimizer\<close> stays unbound, which the first round of the
  loop trips over.
\<close>

definition train_with_line_search ::
    "'x TrainLyapunovReLU \<Rightarrow> ('p, 'x, 'g, 'o) collaborators \<Rightarrow> 'p \<Rightarrow> 'x list \<Rightarrow>
     error + 'p \<times> bool" where
  "train_with_line_search self sys \<theta> state_samples_all =
    (case stack_next_states sys state_samples_all of
       Inl e \<Rightarrow> Inl e
     | Inr dn \<Rightarrow>
     let ps = state_samples_all; ds = state_samples_all;
         n = max_iterations self
     in case total_loss self sys \<theta> ps ds dn None None None None of
          Inl e \<Rightarrow> Inl e
        | Inr r \<Rightarrow>
            if n = 0 then Inl IndexError
            else if \<not> loss_is_tensor r then Inl AttributeError
            else
              (case (if optimizer self = ''GD''
                     then (case min_improvement self of
                             None \<Rightarrow> Inl AttributeError
                           | Some imp \<Rightarrow>
                               Inr (Some (line_search_gd sys \<theta> (learning_rate self)
                                 (momentum self) (loss_minimal_decrement self) imp)))
                     else if optimizer self = ''LineSearchAdam''
                     then (case min_improvement self of
                             None \<Rightarrow> Inl AttributeError
                           | Some imp \<Rightarrow>
                               Inr (Some (line_search_adam sys \<theta> (learning_rate self)
                                 (loss_minimal_decrement self) imp)))
                     else Inr None) of
                 Inl e \<Rightarrow> Inl e
               | Inr None \<Rightarrow> if 1 < n then Inl NameError else Inr (\<theta>, False)
               | Inr (Some opt) \<Rightarrow>
                   (case line_search_loop self sys ps ds dn
                           \<lparr>iter_count = 1, relu = \<theta>, optimizer_state = opt,
                            ls_positivity_mip_costs =
                              (replicate n None)[0 := Some (positivity_mip_objective r)],
                            ls_derivative_mip_costs =
                              (replicate n None)[0 := Some (derivative_mip_objective r)],
                            ls_losses = (replicate n None)[0 := Some (loss r)],
                            ls_relu_params = (replicate n None)[0 := Some \<theta>]\<rparr> of
                      Inl e \<Rightarrow> Inl e
                    | Inr (s, res) \<Rightarrow> Inr (relu s, res))))"

section \<open>\<open>train_lyapunov_on_samples\<close>\<close>

text \<open>
  \<open>best_loss\<close> and \<open>previous_mip_loss\<close> start as \<open>np.inf\<close>, which is \<open>None\<close> here: every
  real number is below it and none is above it. \<open>best_relu\<close> is \<open>None\<close> until the first
  \<open>copy.deepcopy\<close>.
\<close>

record ('p, 'o) on_samples_state = "('p, 'o) network_state" +
  best_loss :: "real option"
  best_relu :: "'p option"
  num_increasing_iterations :: nat
  previous_mip_loss :: "real option"

definition below :: "real \<Rightarrow> real option \<Rightarrow> bool" where
  "below v bound = (case bound of None \<Rightarrow> True | Some b \<Rightarrow> v < b)"

definition above :: "real \<Rightarrow> real option \<Rightarrow> bool" where
  "above v bound = (case bound of None \<Rightarrow> False | Some b \<Rightarrow> v > b)"

text \<open>
  The scalar the loop keys its snapshot and its counter on:
  \<open>weight * -positivity_cost + weight * derivative_cost\<close>.
\<close>

definition mip_loss :: "'x TrainLyapunovReLU \<Rightarrow> real \<Rightarrow> real \<Rightarrow> real" where
  "mip_loss self positivity_cost derivative_cost =
    lyapunov_positivity_mip_cost_weight self * - positivity_cost +
    lyapunov_derivative_mip_cost_weight self * derivative_cost"

datatype 's loop_step = Next 's | Break 's

text \<open>
  The last statements of the loop body: \<open>previous_mip_loss = mip_loss\<close>,
  \<open>loss.backward()\<close> and \<open>optimizer.step()\<close>. The loss is the one of the \<open>total_loss\<close>
  call with both certificate weights overridden by zero; \<open>tensor\<close> says whether it is a
  tensor, and \<open>loss.backward()\<close> raises when it is the float \<open>0.\<close>.
\<close>

definition on_samples_step ::
    "('p, 'x, 'g, 'o) collaborators \<Rightarrow> 'x list \<Rightarrow> 'x list \<Rightarrow> bool \<Rightarrow> real \<Rightarrow>
     ('p, 'o) on_samples_state \<Rightarrow> error + ('p, 'o) on_samples_state loop_step" where
  "on_samples_step sys state_samples_all state_samples_next tensor m s =
    (if \<not> tensor then Inl AttributeError
     else
       let g = loss_backward sys (relu s) state_samples_all state_samples_all
                 state_samples_next (Some 0) (Some 0);
           stepped = optimizer_step sys (optimizer_state s) (relu s) g
       in Inr (Next (s\<lparr>previous_mip_loss := Some m, optimizer_state := fst stepped,
                       relu := snd stepped\<rparr>)))"

text \<open>The body of \<open>for iter_count in range(max_iterations)\<close>.\<close>

definition on_samples_iteration ::
    "'x TrainLyapunovReLU \<Rightarrow> ('p, 'x, 'g, 'o) collaborators \<Rightarrow> 'x list \<Rightarrow> 'x list \<Rightarrow> nat \<Rightarrow>
     nat \<Rightarrow> ('p, 'o) on_samples_state \<Rightarrow> error + ('p, 'o) on_samples_state loop_step" where
  "on_samples_iteration self sys state_samples_all state_samples_next
      max_increasing_iterations i s0 =
    (let s = s0\<lparr>iter_count := i\<rparr> in
     case total_loss self sys (relu s) state_samples_all state_samples_all
            state_samples_next None None (Some 0) (Some 0) of
       Inl e \<Rightarrow> Inl e
     | Inr r \<Rightarrow>
         let m = mip_loss self (positivity_mip_objective r) (derivative_mip_objective r);
             s1 = (if below m (best_loss s)
                   then s\<lparr>best_loss := Some m, best_relu := Some (relu s)\<rparr>
                   else s)
         in if above m (previous_mip_loss s1)
            then
              let s2 = s1\<lparr>num_increasing_iterations := num_increasing_iterations s1 + 1\<rparr>
              in if num_increasing_iterations s2 = max_increasing_iterations
                 then Inr (Break s2)
                 else on_samples_step sys state_samples_all state_samples_next
                        (loss_is_tensor r) m s2
            else on_samples_step sys state_samples_all state_samples_next
                   (loss_is_tensor r) m (s1\<lparr>num_increasing_iterations := 0\<rparr>))"

fun on_samples_loop ::
    "'x TrainLyapunovReLU \<Rightarrow> ('p, 'x, 'g, 'o) collaborators \<Rightarrow> 'x list \<Rightarrow> 'x list \<Rightarrow> nat \<Rightarrow>
     nat list \<Rightarrow> ('p, 'o) on_samples_state \<Rightarrow> error + ('p, 'o) on_samples_state" where
  "on_samples_loop self sys xs ns k [] s = Inr s"
| "on_samples_loop self sys xs ns k (i # is) s =
    (case on_samples_iteration self sys xs ns k i s of
       Inl e \<Rightarrow> Inl e
     | Inr (Break s') \<Rightarrow> Inr s'
     | Inr (Next s') \<Rightarrow> on_samples_loop self sys xs ns k is s')"

text \<open>
  \<open>train_lyapunov_on_samples\<close>: the state it ends in, with the network loaded from
  \<open>best_relu\<close>. \<open>iter_count\<close> is the index of the last round run. When no round ran,
  \<open>best_relu\<close> is unbound.
\<close>

definition train_lyapunov_on_samples ::
    "'x TrainLyapunovReLU \<Rightarrow> ('p, 'x, 'g, 'o) collaborators \<Rightarrow> 'p \<Rightarrow> 'x list \<Rightarrow> nat \<Rightarrow> nat \<Rightarrow>
     error + ('p, 'o) on_samples_state" where
  "train_lyapunov_on_samples self sys \<theta> state_samples_all max_iters max_increasing_iterations =
    (case stack_next_states sys state_samples_all of
       Inl e \<Rightarrow> Inl e
     | Inr state_samples_next \<Rightarrow>
         (case on_samples_loop self sys state_samples_all state_samples_next
                 max_increasing_iterations [0..<max_iters]
                 \<lparr>iter_count = 0, relu = \<theta>,
                  optimizer_state = adam sys \<theta> (learning_rate self),
                  best_loss = None, best_relu = None, num_increasing_iterations = 0,
                  previous_mip_loss = None\<rparr> of
            Inl e \<Rightarrow> Inl e
          | Inr s \<Rightarrow>
              (case best_relu s of
                 None \<Rightarrow> Inl NameError
               | Some best \<Rightarrow> Inr (s\<lparr>relu := best\<rparr>))))"

text \<open>
  The parameters and optimizer state after \<open>k\<close> rounds that did not break, and the
  scalar \<open>mip_loss\<close> of round \<open>k\<close>: every such round takes the same gradient step,
  whatever the counters say.
\<close>

primrec on_samples_after ::
    "'x TrainLyapunovReLU \<Rightarrow> ('p, 'x, 'g, 'o) collaborators \<Rightarrow> 'p \<Rightarrow> 'x list \<Rightarrow> nat \<Rightarrow> 'o \<times> 'p" where
  "on_samples_after self sys \<theta> xs 0 = (adam sys \<theta> (learning_rate self), \<theta>)"
| "on_samples_after self sys \<theta> xs (Suc k) =
    (case on_samples_after self sys \<theta> xs k of
       (opt, \<theta>') \<Rightarrow>
         optimizer_step sys opt \<theta>'
           (loss_backward sys \<theta>' xs xs (map (step_forward sys) xs) (Some 0) (Some 0)))"

definition relu_at ::
    "'x TrainLyapunovReLU \<Rightarrow> ('p, 'x, 'g, 'o) collaborators \<Rightarrow> 'p \<Rightarrow> 'x list \<Rightarrow> nat \<Rightarrow> 'p" where
  "relu_at self sys \<theta> xs k = snd (on_samples_after self sys \<theta> xs k)"

definition mip_loss_at ::
    "'x TrainLyapunovReLU \<Rightarrow> ('p, 'x, 'g, 'o) collaborators \<Rightarrow> 'p \<Rightarrow> 'x list \<Rightarrow> nat \<Rightarrow> real" where
  "mip_loss_at self sys \<theta> xs k =
    mip_loss self
      (ObjVal (lyapunov_positivity_mip self sys (relu_at self sys \<theta> xs k)))
      (ObjVal (lyapunov_derivative_mip self sys (relu_at self sys \<theta> xs k)))"

text \<open>
  The counter and the snapshot as the description of the loop words them, over the
  sequence \<open>m\<close> of the scalars of the rounds. \<open>increasing_run m k\<close> is the counter after
  round \<open>k\<close>: one more when the scalar strictly exceeds the one of the round before,
  zero otherwise (round 0 has no round before). \<open>best_round m k\<close> is the round whose
  snapshot is held after round \<open>k\<close>: the snapshot is replaced when the scalar strictly
  improves on the best one so far. \<open>breaks m limit k\<close>: the counter reaches the limit at
  round \<open>k\<close>.
\<close>

primrec increasing_run :: "(nat \<Rightarrow> real) \<Rightarrow> nat \<Rightarrow> nat" where
  "increasing_run m 0 = 0"
| "increasing_run m (Suc k) = (if m (Suc k) > m k then increasing_run m k + 1 else 0)"

primrec best_round :: "(nat \<Rightarrow> real) \<Rightarrow> nat \<Rightarrow> nat" where
  "best_round m 0 = 0"
| "best_round m (Suc k) = (if m (Suc k) < m (best_round m k) then Suc k else best_round m k)"

definition breaks :: "(nat \<Rightarrow> real) \<Rightarrow> nat \<Rightarrow> nat \<Rightarrow> bool" where
  "breaks m limit k = (0 < limit \<and> increasing_run m k = limit)"

text \<open>
  The scalar as the specification words it, with both violations clamped at zero:
  \<open>weight_pos * max(0, -positivity_obj) + weight_der * max(0, derivative_obj)\<close>.
\<close>

definition clamped_mip_loss :: "'x TrainLyapunovReLU \<Rightarrow> real \<Rightarrow> real \<Rightarrow> real" where
  "clamped_mip_loss self positivity_cost derivative_cost =
    lyapunov_positivity_mip_cost_weight self * max 0 (- positivity_cost) +
    lyapunov_derivative_mip_cost_weight self * max 0 derivative_cost"

text \<open>
  The state of the loop when \<open>k\<close> rounds have run without a break, and the state it
  breaks with in round \<open>k\<close>.
\<close>

definition on_samples_inv ::
    "'x TrainLyapunovReLU \<Rightarrow> ('p, 'x, 'g, 'o) collaborators \<Rightarrow> 'p \<Rightarrow> 'x list \<Rightarrow> nat \<Rightarrow>
     ('p, 'o) on_samples_state \<Rightarrow> bool" where
  "on_samples_inv self sys \<theta> xs k s =
    (relu s = relu_at self sys \<theta> xs k \<and>
     optimizer_state s = fst (on_samples_after self sys \<theta> xs k) \<and>
     (case k of
        0 \<Rightarrow> best_loss s = None \<and> best_relu s = None \<and> previous_mip_loss s = None \<and>
              num_increasing_iterations s = 0
      | Suc j \<Rightarrow>
          best_loss s =
            Some (mip_loss_at self sys \<theta> xs (best_round (mip_loss_at self sys \<theta> xs) j)) \<and>
          best_relu s =
            Some (relu_at self sys \<theta> xs (best_round (mip_loss_at self sys \<theta> xs) j)) \<and>
          previous_mip_loss s = Some (mip_loss_at self sys \<theta> xs j) \<and>
          num_increasing_iterations s = increasing_run (mip_loss_at self sys \<theta> xs) j \<and>
          iter_count s = j))"

definition on_samples_broke ::
    "'x TrainLyapunovReLU \<Rightarrow> ('p, 'x, 'g, 'o) collaborators \<Rightarrow> 'p \<Rightarrow> 'x list \<Rightarrow> nat \<Rightarrow>
     ('p, 'o) on_samples_state \<Rightarrow> bool" where
  "on_samples_broke self sys \<theta> xs k s =
    (relu s = relu_at self sys \<theta> xs k \<and>
     best_loss s =
       Some (mip_loss_at self sys \<theta> xs (best_round (mip_loss_at self sys \<theta> xs) k)) \<and>
     best_relu s =
       Some (relu_at self sys \<theta> xs (best_round (mip_loss_at self sys \<theta> xs) k)) \<and>
     num_increasing_iterations s = increasing_run (mip_loss_at self sys \<theta> xs) k \<and>
     iter_count s = k)"

section \<open>\<open>total_loss\<close> on a store of tensors\<close>

text \<open>
  To speak about mutation, tensors live in a store and the caller passes references:
  a store is the list of the tensors allocated so far, a reference an index into it, so
  two arguments may be the same tensor. \<open>total_loss\<close> reads the shapes and rows of its
  arguments, takes slices (views) of them, hands those to the collaborators, which
  only read them, and builds each grown pool with \<open>torch.cat\<close>, which allocates its
  result. The losses and objective values are those of \<open>total_loss\<close> on the contents of
  the three arguments; the references returned are the arguments themselves, or the
  three new tensors.
\<close>

type_synonym 'x store = "'x list list"

definition torch_cat :: "'x store \<Rightarrow> nat \<Rightarrow> 'x \<Rightarrow> 'x store \<times> nat" where
  "torch_cat st a row = (st @ [st ! a @ [row]], length st)"

definition total_loss_store ::
    "'x TrainLyapunovReLU \<Rightarrow> ('p, 'x, 'g, 'o) collaborators \<Rightarrow> 'p \<Rightarrow> 'x store \<Rightarrow>
     nat \<Rightarrow> nat \<Rightarrow> nat \<Rightarrow>
     real option \<Rightarrow> real option \<Rightarrow> real option \<Rightarrow> real option \<Rightarrow>
     error + 'x store \<times> (nat \<times> nat \<times> nat) \<times> 'x total_loss_return" where
  "total_loss_store self sys \<theta> st positivity_ref derivative_ref next_ref w1 w2 w3 w4 =
    (case total_loss self sys \<theta> (st ! positivity_ref) (st ! derivative_ref) (st ! next_ref)
            w1 w2 w3 w4 of
       Inl e \<Rightarrow> Inl e
     | Inr r \<Rightarrow>
         if add_adversarial_state_to_training self
         then
           (case adversarial_mode (mode_val (lyapunov_derivative_mip self sys \<theta>)) of
              Inl e \<Rightarrow> Inl e
            | Inr derivative_mip_adversarial_mode \<Rightarrow>
                let positivity_mip_adversarial = x_val (lyapunov_positivity_mip self sys \<theta>);
                    derivative_mip_adversarial = x_val (lyapunov_derivative_mip self sys \<theta>);
                    derivative_mip_adversarial_next =
                      step_forward_mode sys derivative_mip_adversarial
                        derivative_mip_adversarial_mode
                in (case torch_cat st positivity_ref positivity_mip_adversarial of
                      (st1, positivity_ref') \<Rightarrow>
                        (case torch_cat st1 derivative_ref derivative_mip_adversarial of
                           (st2, derivative_ref') \<Rightarrow>
                             (case torch_cat st2 next_ref derivative_mip_adversarial_next of
                                (st3, next_ref') \<Rightarrow>
                                  Inr (st3, (positivity_ref', derivative_ref', next_ref'),
                                       r)))))
         else Inr (st, (positivity_ref, derivative_ref, next_ref), r))"

section \<open>Stub collaborators\<close>

text \<open>
  A stub of the collaborators for concrete runs: the toy system \<open>x' = x / 2\<close> in both
  modes, a network that is identically zero (so \<open>V(x) = \<lambda>|x - x*|\<close>), and a solver whose
  objective values are given as functions of the number of optimizer steps taken so
  far, which is what the parameter \<open>\<theta>\<close> of the stub counts.
\<close>

definition stub_V :: "real \<Rightarrow> real \<Rightarrow> real \<Rightarrow> real" where
  "stub_V lam x_eq x = lam * \<bar>x - x_eq\<bar>"

definition mean :: "real list \<Rightarrow> real" where
  "mean vs = sum_list vs / real (length vs)"

definition stub :: "(nat \<Rightarrow> real) \<Rightarrow> (nat \<Rightarrow> real) \<Rightarrow> (nat, real, unit, unit) collaborators" where
  "stub pos der =
    \<lparr>step_forward = (\<lambda>x. x / 2),
     step_forward_mode = (\<lambda>x m. x / 2),
     solve_positivity = (\<lambda>\<theta> x_eq lam eps pool.
       \<lparr>ObjVal = pos \<theta>, solCount = 2,
        objective_from_solution = (\<lambda>j. pos \<theta> + real j / 2), x_val = 1\<rparr>),
     solve_derivative = (\<lambda>\<theta> x_eq lam eps pool.
       \<lparr>ObjVal = der \<theta>, solCount = 2,
        objective_from_solution = (\<lambda>j. der \<theta> - real j / 2), x_val = - 1,
        mode_val = [0, 1]\<rparr>),
     lyapunov_positivity_loss_at_samples = (\<lambda>\<theta> x_eq xs lam eps margin.
       mean (map (\<lambda>x. max (- stub_V lam x_eq x + eps * \<bar>x - x_eq\<bar> + margin) 0) xs)),
     lyapunov_derivative_loss_at_samples_and_next_states = (\<lambda>\<theta> lam eps xs ns x_eq margin.
       mean (map (\<lambda>(x, n). max (stub_V lam x_eq n - stub_V lam x_eq x
                                   + eps * stub_V lam x_eq x + margin) 0) (zip xs ns))),
     loss_backward = (\<lambda>\<theta> ps ds dn w3 w4. ()),
     project_gradient = (\<lambda>\<theta> ps ds dn m. ()),
     adam = (\<lambda>\<theta> lr. ()),
     sgd = (\<lambda>\<theta> lr mom. ()),
     optimizer_step = (\<lambda>opt \<theta> g. (opt, Suc \<theta>)),
     line_search_gd = (\<lambda>\<theta> lr mom dec imp. ()),
     line_search_adam = (\<lambda>\<theta> lr dec imp. ()),
     line_search_step = (\<lambda>opt closure \<theta> previous.
       (opt, [Suc \<theta>], Suc \<theta>,
        (case closure (Suc \<theta>) of Inl e \<Rightarrow> previous | Inr l \<Rightarrow> l)))\<rparr>"

section \<open>The certificate loss terms\<close>

lemma mip_loss_fold:
  "fst (foldl (mip_loss_step w d c cost ev) acc [0..<n]) =
     fst acc + (\<Sum>j<n. if j < c then w * d ^ j * cost j else 0)"
  by (induction n) (simp_all add: mip_loss_step_def)

lemma mip_loss_loop_sum:
  "w \<noteq> 0 \<Longrightarrow>
   fst (mip_loss_loop w d p c cost ev) =
     (\<Sum>j<nat p. if j < c then w * d ^ j * cost j else 0)"
  by (simp add: mip_loss_loop_def mip_loss_fold)

lemma sum_below_count:
  fixes f :: "nat \<Rightarrow> real"
  shows "(\<Sum>j<n. if j < c then f j else 0) = (\<Sum>j<min n c. f j)"
proof -
  have "(\<Sum>j<n. if j < c then f j else 0) = sum f ({..<n} \<inter> {j. j < c})"
    by (simp add: sum.inter_restrict)
  moreover have "{..<n} \<inter> {j. j < c} = {..<min n c}"
    by auto
  ultimately show ?thesis by simp
qed

lemma total_loss_mip_losses:
  assumes "total_loss self sys \<theta> ps ds dn w1 w2 w3 w4 = Inr r"
  shows "positivity_mip_loss r =
           fst (mip_loss_loop (set_weight w3 (lyapunov_positivity_mip_cost_weight self))
             (lyapunov_positivity_mip_cost_decay_rate self)
             (lyapunov_positivity_mip_pool_solutions self)
             (solCount (lyapunov_positivity_mip self sys \<theta>))
             (\<lambda>j. - objective_from_solution (lyapunov_positivity_mip self sys \<theta>) j)
             PositivityObjective)"
    and "derivative_mip_loss r =
           fst (mip_loss_loop (set_weight w4 (lyapunov_derivative_mip_cost_weight self))
             (lyapunov_derivative_mip_cost_decay_rate self)
             (lyapunov_derivative_mip_pool_solutions self)
             (solCount (lyapunov_derivative_mip self sys \<theta>))
             (objective_from_solution (lyapunov_derivative_mip self sys \<theta>))
             DerivativeObjective)"
  using assms
  by (auto simp: total_loss_def Let_def split: if_splits sum.splits)

lemma mip_loss_fold_calls:
  "snd (foldl (mip_loss_step w d c cost ev) acc [0..<n]) =
     snd acc @ map ev (filter (\<lambda>j. j < c) [0..<n])"
  by (induction n) (simp_all add: mip_loss_step_def)

lemma mip_loss_loop_calls:
  "snd (mip_loss_loop w d p c cost ev) =
     (if w \<noteq> 0 then map ev (filter (\<lambda>j. j < c) [0..<nat p]) else [])"
  by (simp add: mip_loss_loop_def mip_loss_fold_calls)

lemma mip_loss_loop_zero: "mip_loss_loop 0 d p c cost ev = (0, [])"
  by (simp add: mip_loss_loop_def)

section \<open>What a call of \<open>total_loss\<close> returns\<close>

lemma total_loss_calls:
  assumes "total_loss self sys \<theta> ps ds dn w1 w2 w3 w4 = Inr r"
  shows "calls r =
    [PositivityOptimize, DerivativeOptimize] @
    (if set_weight w1 (lyapunov_positivity_sample_cost_weight self) \<noteq> 0 \<and> ps \<noteq> []
     then [PositivityLossAtSamples] else []) @
    (if set_weight w2 (lyapunov_derivative_sample_cost_weight self) \<noteq> 0 \<and> ds \<noteq> []
     then [DerivativeLossAtSamples] else []) @
    (if set_weight w3 (lyapunov_positivity_mip_cost_weight self) \<noteq> 0
     then map PositivityObjective
            (filter (\<lambda>j. j < solCount (lyapunov_positivity_mip self sys \<theta>))
               [0..<nat (lyapunov_positivity_mip_pool_solutions self)])
     else []) @
    (if set_weight w4 (lyapunov_derivative_mip_cost_weight self) \<noteq> 0
     then map DerivativeObjective
            (filter (\<lambda>j. j < solCount (lyapunov_derivative_mip self sys \<theta>))
               [0..<nat (lyapunov_derivative_mip_pool_solutions self)])
     else []) @
    (if add_adversarial_state_to_training self then [StepForward] else [])"
  using assms
  by (auto simp: total_loss_def Let_def mip_loss_loop_calls split: if_splits sum.splits)

lemma total_loss_sample_losses:
  assumes "total_loss self sys \<theta> ps ds dn w1 w2 w3 w4 = Inr r"
  shows "positivity_sample_loss r =
    (if set_weight w1 (lyapunov_positivity_sample_cost_weight self) \<noteq> 0 \<and> ps \<noteq> []
     then set_weight w1 (lyapunov_positivity_sample_cost_weight self) *
          lyapunov_positivity_loss_at_samples sys \<theta> (x_equilibrium self)
            (in_pool (max_sample_pool_size self) (length ps) ps)
            (V_lambda self) (lyapunov_positivity_epsilon self)
            (lyapunov_positivity_sample_margin self)
     else 0)"
   and "derivative_sample_loss r =
    (if set_weight w2 (lyapunov_derivative_sample_cost_weight self) \<noteq> 0 \<and> ds \<noteq> []
     then set_weight w2 (lyapunov_derivative_sample_cost_weight self) *
          lyapunov_derivative_loss_at_samples_and_next_states sys \<theta>
            (V_lambda self) (lyapunov_derivative_epsilon self)
            (in_pool (max_sample_pool_size self) (length ds) ds)
            (in_pool (max_sample_pool_size self) (length ds) dn)
            (x_equilibrium self) (lyapunov_derivative_sample_margin self)
     else 0)"
   and "loss r = positivity_sample_loss r + derivative_sample_loss r +
          positivity_mip_loss r + derivative_mip_loss r"
   and "positivity_mip_objective r = ObjVal (lyapunov_positivity_mip self sys \<theta>)"
   and "derivative_mip_objective r = ObjVal (lyapunov_derivative_mip self sys \<theta>)"
  using assms
  by (auto simp: total_loss_def Let_def split: if_splits sum.splits)

lemma total_loss_succeeds:
  "(\<exists>r. total_loss self sys \<theta> ps ds dn w1 w2 w3 w4 = Inr r) \<longleftrightarrow>
     length dn = length ds \<and>
     (add_adversarial_state_to_training self \<longrightarrow>
        (\<exists>m. adversarial_mode (mode_val (lyapunov_derivative_mip self sys \<theta>)) = Inr m))"
  by (auto simp: total_loss_def Let_def split: sum.splits)

lemma total_loss_pools:
  assumes "total_loss self sys \<theta> ps ds dn w1 w2 w3 w4 = Inr r"
  shows "length dn = length ds"
    and "add_adversarial_state_to_training self \<Longrightarrow>
         \<exists>m. adversarial_mode (mode_val (lyapunov_derivative_mip self sys \<theta>)) = Inr m \<and>
           positivity_state_samples_ret r = ps @ [x_val (lyapunov_positivity_mip self sys \<theta>)] \<and>
           derivative_state_samples_ret r = ds @ [x_val (lyapunov_derivative_mip self sys \<theta>)] \<and>
           derivative_state_samples_next_ret r =
             dn @ [step_forward_mode sys (x_val (lyapunov_derivative_mip self sys \<theta>)) m]"
    and "\<not> add_adversarial_state_to_training self \<Longrightarrow>
           positivity_state_samples_ret r = ps \<and> derivative_state_samples_ret r = ds \<and>
           derivative_state_samples_next_ret r = dn"
  using assms
  by (auto simp: total_loss_def Let_def split: if_splits sum.splits)

lemma total_loss_ret_lengths:
  assumes "total_loss self sys \<theta> ps ds dn w1 w2 w3 w4 = Inr r"
  shows "length (derivative_state_samples_next_ret r) = length (derivative_state_samples_ret r)"
  using total_loss_pools [OF assms]
  by (cases "add_adversarial_state_to_training self") auto

lemma total_loss_tensor:
  assumes "total_loss self sys \<theta> ps ds dn w1 w2 w3 w4 = Inr r"
    and "set_weight w1 (lyapunov_positivity_sample_cost_weight self) \<noteq> 0 \<and> ps \<noteq> [] \<or>
         set_weight w2 (lyapunov_derivative_sample_cost_weight self) \<noteq> 0 \<and> ds \<noteq> []"
  shows "loss_is_tensor r"
  using assms(2)
  by (auto simp: loss_is_tensor_def total_loss_calls [OF assms(1)] yields_tensor_def)

lemma total_loss_float:
  assumes "total_loss self sys \<theta> ps ds dn w1 w2 w3 w4 = Inr r"
    and "set_weight w1 (lyapunov_positivity_sample_cost_weight self) = 0 \<or> ps = []"
    and "set_weight w2 (lyapunov_derivative_sample_cost_weight self) = 0 \<or> ds = []"
    and "set_weight w3 (lyapunov_positivity_mip_cost_weight self) = 0"
    and "set_weight w4 (lyapunov_derivative_mip_cost_weight self) = 0"
  shows "\<not> loss_is_tensor r"
  using assms(2-)
  by (auto simp: loss_is_tensor_def total_loss_calls [OF assms(1)] yields_tensor_def)




section \<open>Claims about \<open>total_loss\<close>\<close>

text \<open>
  C5. When a certificate (MIP) cost weight is nonzero, \<open>total_loss\<close> computes the
  positivity certificate loss as the sum over the ranks \<open>j\<close> (0-indexed) of
  \<open>weight * decay_rate ^ j * (- objective j)\<close> and the derivative certificate loss as the
  sum of \<open>weight * decay_rate ^ j * objective j\<close>. The ranks are those of
  \<open>range(pool_solutions)\<close>; a rank at or beyond the solver's solution count contributes
  zero, so each sum ranges over the ranks below both the pool size and the count.
\<close>

theorem total_loss_certificate_loss_sums:
  assumes "total_loss self sys \<theta> ps ds dn w1 w2 w3 w4 = Inr r"
  shows
    "(set_weight w3 (lyapunov_positivity_mip_cost_weight self) \<noteq> 0 \<longrightarrow>
        positivity_mip_loss r =
          (\<Sum>j<nat (lyapunov_positivity_mip_pool_solutions self).
             if j < solCount (lyapunov_positivity_mip self sys \<theta>)
             then set_weight w3 (lyapunov_positivity_mip_cost_weight self) *
                  lyapunov_positivity_mip_cost_decay_rate self ^ j *
                  (- objective_from_solution (lyapunov_positivity_mip self sys \<theta>) j)
             else 0) \<and>
        positivity_mip_loss r =
          (\<Sum>j<min (nat (lyapunov_positivity_mip_pool_solutions self))
                   (solCount (lyapunov_positivity_mip self sys \<theta>)).
             set_weight w3 (lyapunov_positivity_mip_cost_weight self) *
             lyapunov_positivity_mip_cost_decay_rate self ^ j *
             (- objective_from_solution (lyapunov_positivity_mip self sys \<theta>) j))) \<and>
     (set_weight w4 (lyapunov_derivative_mip_cost_weight self) \<noteq> 0 \<longrightarrow>
        derivative_mip_loss r =
          (\<Sum>j<nat (lyapunov_derivative_mip_pool_solutions self).
             if j < solCount (lyapunov_derivative_mip self sys \<theta>)
             then set_weight w4 (lyapunov_derivative_mip_cost_weight self) *
                  lyapunov_derivative_mip_cost_decay_rate self ^ j *
                  objective_from_solution (lyapunov_derivative_mip self sys \<theta>) j
             else 0) \<and>
        derivative_mip_loss r =
          (\<Sum>j<min (nat (lyapunov_derivative_mip_pool_solutions self))
                   (solCount (lyapunov_derivative_mip self sys \<theta>)).
             set_weight w4 (lyapunov_derivative_mip_cost_weight self) *
             lyapunov_derivative_mip_cost_decay_rate self ^ j *
             objective_from_solution (lyapunov_derivative_mip self sys \<theta>) j))"
proof -
  note l = total_loss_mip_losses [OF assms]
  show ?thesis
    by (intro conjI impI) (simp_all add: l mip_loss_loop_sum sum_below_count)
qed

text \<open>
  An instance: pool size 3, two solutions found, objectives \<open>-1, -1/2\<close> and \<open>1, 1/2\<close>;
  both certificate losses are \<open>10 * 1 + 10 * 0.9 * 0.5\<close>.
\<close>

theorem total_loss_certificate_loss_sums_witness:
  "\<exists>r. total_loss
          ((init (1 / 10) 0)\<lparr>lyapunov_positivity_mip_pool_solutions := 3\<rparr>)
          (stub (\<lambda>_. - 1) (\<lambda>_. 1)) 0 [1] [1] [1 / 2] None None None None = Inr r \<and>
       positivity_mip_loss r = 29 / 2 \<and> derivative_mip_loss r = 29 / 2"
proof -
  obtain r where r:
    "total_loss ((init (1 / 10) 0)\<lparr>lyapunov_positivity_mip_pool_solutions := 3\<rparr>)
       (stub (\<lambda>_. - 1) (\<lambda>_. 1)) (0::nat) [1] [1] [1 / 2] None None None None = Inr r"
    by (simp add: total_loss_def Let_def init_def stub_def)
  from total_loss_certificate_loss_sums [OF r]
  have "positivity_mip_loss r = 29 / 2 \<and> derivative_mip_loss r = 29 / 2"
    by (simp add: set_weight_def init_def stub_def lyapunov_positivity_mip_def
        lyapunov_derivative_mip_def lessThan_Suc eval_nat_numeral)
  with r show ?thesis by blast
qed

text \<open>
  C4. In \<open>total_loss\<close>, if the positivity (resp. derivative) sample cost weight resolves
  to zero or the corresponding sample set is empty, that sample loss term is exactly 0
  and the sample loss of the collaborator is not evaluated; if a certificate (MIP) cost
  weight is zero, that certificate loss term is exactly 0 and no objective is extracted
  for it. The solver runs exactly twice, once per problem, whatever the weights are: no
  solver call is owed to a loss term.
\<close>

theorem total_loss_zero_weight_terms:
  assumes "total_loss self sys \<theta> ps ds dn w1 w2 w3 w4 = Inr r"
  shows
    "(set_weight w1 (lyapunov_positivity_sample_cost_weight self) = 0 \<or> ps = [] \<longrightarrow>
        positivity_sample_loss r = 0 \<and> PositivityLossAtSamples \<notin> set (calls r)) \<and>
     (set_weight w2 (lyapunov_derivative_sample_cost_weight self) = 0 \<or> ds = [] \<longrightarrow>
        derivative_sample_loss r = 0 \<and> DerivativeLossAtSamples \<notin> set (calls r)) \<and>
     (set_weight w3 (lyapunov_positivity_mip_cost_weight self) = 0 \<longrightarrow>
        positivity_mip_loss r = 0 \<and> (\<forall>j. PositivityObjective j \<notin> set (calls r))) \<and>
     (set_weight w4 (lyapunov_derivative_mip_cost_weight self) = 0 \<longrightarrow>
        derivative_mip_loss r = 0 \<and> (\<forall>j. DerivativeObjective j \<notin> set (calls r))) \<and>
     filter is_solver_call (calls r) = [PositivityOptimize, DerivativeOptimize]"
proof -
  note c = total_loss_calls [OF assms]
  note l = total_loss_sample_losses(1,2) [OF assms] total_loss_mip_losses [OF assms]
  show ?thesis
    by (intro conjI impI allI)
       (auto simp: c l mip_loss_loop_zero is_solver_call_def filter_map comp_def)
qed

text \<open>
  An instance: all four weights overridden by zero; a second one: default weights and
  an empty positivity pool.
\<close>

theorem total_loss_zero_weight_terms_witness:
  "(\<exists>r. total_loss (init (1 / 10) 0) (stub (\<lambda>_. - 1) (\<lambda>_. 1)) 0 [1] [1] [1 / 2]
           (Some 0) (Some 0) (Some 0) (Some 0) = Inr r \<and>
        positivity_sample_loss r = 0 \<and> derivative_sample_loss r = 0 \<and>
        positivity_mip_loss r = 0 \<and> derivative_mip_loss r = 0 \<and>
        calls r = [PositivityOptimize, DerivativeOptimize]) \<and>
   (\<exists>r. total_loss (init (1 / 10) 0) (stub (\<lambda>_. - 1) (\<lambda>_. 1)) 0 [] [1] [1 / 2]
           None None None None = Inr r \<and>
        positivity_sample_loss r = 0 \<and> PositivityLossAtSamples \<notin> set (calls r) \<and>
        filter is_solver_call (calls r) = [PositivityOptimize, DerivativeOptimize])"
proof -
  obtain r where r:
    "total_loss (init (1 / 10) 0) (stub (\<lambda>_. - 1) (\<lambda>_. 1)) (0::nat) [1] [1] [1 / 2]
       (Some 0) (Some 0) (Some 0) (Some 0) = Inr r"
    by (simp add: total_loss_def Let_def init_def stub_def)
  obtain r' where r':
    "total_loss (init (1 / 10) 0) (stub (\<lambda>_. - 1) (\<lambda>_. 1)) (0::nat) [] [1] [1 / 2]
       None None None None = Inr r'"
    by (simp add: total_loss_def Let_def init_def stub_def)
  have c: "calls r = [PositivityOptimize, DerivativeOptimize]"
    using total_loss_calls [OF r] by (simp add: set_weight_def init_def)
  from total_loss_zero_weight_terms [OF r]
  have z: "positivity_sample_loss r = 0 \<and> derivative_sample_loss r = 0 \<and>
           positivity_mip_loss r = 0 \<and> derivative_mip_loss r = 0"
    by (simp add: set_weight_def)
  from total_loss_zero_weight_terms [OF r']
  have z': "positivity_sample_loss r' = 0 \<and> PositivityLossAtSamples \<notin> set (calls r') \<and>
            filter is_solver_call (calls r') = [PositivityOptimize, DerivativeOptimize]"
    by simp
  from r c z r' z' show ?thesis by blast
qed



text \<open>
  The window has to hold at least one entry: \<open>samples[-0:]\<close> is the whole pool, so
  with \<open>max_sample_pool_size = 0\<close> an entry put in front does change the positivity
  sample loss (margin 1, samples \<open>[1]\<close> and \<open>[2, 1]\<close>).
\<close>

lemma total_loss_window_zero:
  "\<exists>r r'. total_loss
             ((init (1 / 10) 0)\<lparr>max_sample_pool_size := 0,
                                lyapunov_positivity_sample_margin := 1\<rparr>)
             (stub (\<lambda>_. - 1) (\<lambda>_. 1)) 0 [1] [] [] None None None None = Inr r \<and>
           total_loss
             ((init (1 / 10) 0)\<lparr>max_sample_pool_size := 0,
                                lyapunov_positivity_sample_margin := 1\<rparr>)
             (stub (\<lambda>_. - 1) (\<lambda>_. 1)) 0 [2, 1] [] [] None None None None = Inr r' \<and>
           positivity_sample_loss r = 91 / 100 \<and> positivity_sample_loss r' = 173 / 200"
  by (simp add: total_loss_def Let_def init_def stub_def in_pool_def slice_from_def mean_def
      stub_V_def set_weight_def)

section \<open>The loop of \<open>train\<close>\<close>

lemma train_iteration_Continue:
  assumes "train_iteration self sys s = Inr (Continue s')"
  shows "\<exists>r. total_loss self sys (relu s) (positivity_state_samples s)
            (derivative_state_samples s) (derivative_state_samples_next s)
            None None None None = Inr r \<and>
          \<not> train_converged self (positivity_mip_objective r) (derivative_mip_objective r) \<and>
          positivity_state_samples s' = positivity_state_samples_ret r \<and>
          derivative_state_samples s' = derivative_state_samples_ret r \<and>
          derivative_state_samples_next s' = derivative_state_samples_next_ret r \<and>
          iter_count s' = Suc (iter_count s) \<and>
          losses s' = (losses s)[iter_count s := Some (loss r)] \<and>
          lyapunov_positivity_mip_costs s' =
            (lyapunov_positivity_mip_costs s)[iter_count s := Some (positivity_mip_objective r)] \<and>
          lyapunov_derivative_mip_costs s' =
            (lyapunov_derivative_mip_costs s)[iter_count s := Some (derivative_mip_objective r)] \<and>
          next_project_gradient_mode (project_gradient_method self) (iter_count s)
            (project_gradient_mode s) = Inr (project_gradient_mode s') \<and>
          length (gradients s') = length (gradients s) \<and>
          length (relu_params s') = length (relu_params s)"
  using assms
  by (auto simp: train_iteration_def Let_def split: sum.splits if_splits option.splits)

lemma train_iteration_Return:
  assumes "train_iteration self sys s = Inr (Return s' res)"
  shows "\<exists>r. total_loss self sys (relu s) (positivity_state_samples s)
            (derivative_state_samples s) (derivative_state_samples_next s)
            None None None None = Inr r \<and>
          train_converged self (positivity_mip_objective r) (derivative_mip_objective r) \<and>
          positivity_state_samples s' = positivity_state_samples_ret r \<and>
          derivative_state_samples s' = derivative_state_samples_ret r \<and>
          derivative_state_samples_next s' = derivative_state_samples_next_ret r \<and>
          relu s' = relu s \<and> optimizer_state s' = optimizer_state s"
  using assms
  by (auto simp: train_iteration_def Let_def split: sum.splits if_splits option.splits)

lemma train_iteration_gradient:
  assumes "train_iteration self sys s = Inr (Continue s')"
    and "project_gradient_method self \<noteq> NONE"
  shows "\<exists>m. project_gradient_mode s' = Some m \<and>
           gradients s' =
             (gradients s)[iter_count s := Some (project_gradient sys (relu s)
                (positivity_state_samples s) (derivative_state_samples s)
                (derivative_state_samples_next s) m)]"
  using assms
  by (auto simp: train_iteration_def Let_def split: sum.splits if_splits option.splits)


lemma train_iteration_continues:
  assumes "total_loss self sys (relu s) (positivity_state_samples s)
            (derivative_state_samples s) (derivative_state_samples_next s)
            None None None None = Inr r"
    and "loss_is_tensor r"
    and "\<not> train_converged self (positivity_mip_objective r) (derivative_mip_objective r)"
    and "project_gradient_method self = ALTERNATE \<Longrightarrow>
         iter_count s = 0 \<or> project_gradient_mode s \<noteq> None"
  shows "\<exists>s'. train_iteration self sys s = Inr (Continue s')"
  using assms
  by (cases "project_gradient_method self")
    (auto simp: train_iteration_def Let_def next_project_gradient_mode_def)

lemma train_iteration_float:
  assumes "total_loss self sys (relu s) (positivity_state_samples s)
            (derivative_state_samples s) (derivative_state_samples_next s)
            None None None None = Inr r"
    and "\<not> loss_is_tensor r"
  shows "train_iteration self sys s = Inl AttributeError"
  using assms by (simp add: train_iteration_def)

lemma train_reaches_pools:
  assumes "train_reaches self sys s0 s"
    and "length (derivative_state_samples_next s0) = length (derivative_state_samples s0)"
  shows "length (derivative_state_samples_next s) = length (derivative_state_samples s)"
  using assms
proof (induction rule: train_reaches.induct)
  case start
  then show ?case by simp
next
  case (step s s')
  from train_iteration_Continue [OF step.hyps(3)] show ?case
    by (auto dest: total_loss_ret_lengths)
qed


lemma train_reaches_histories:
  assumes "train_reaches self sys (train_init self sys \<theta> opt xs) s"
  shows "length (losses s) = max_iterations self \<and>
         length (lyapunov_positivity_mip_costs s) = max_iterations self \<and>
         length (lyapunov_derivative_mip_costs s) = max_iterations self \<and>
         length (gradients s) = max_iterations self"
  using assms
proof (induction rule: train_reaches.induct)
  case start
  show ?case by (simp add: train_init_def)
next
  case (step s s')
  from train_iteration_Continue [OF step.hyps(3)] step.IH show ?case
    by auto
qed

lemma train_reaches_alternate:
  assumes "train_reaches self sys (train_init self sys \<theta> opt xs) s"
    and "project_gradient_method self = ALTERNATE"
  shows "if iter_count s = 0 then project_gradient_mode s = None
         else project_gradient_mode s = Some (if odd (iter_count s) then LOSS2 else LOSS1)"
  using assms
proof (induction rule: train_reaches.induct)
  case start
  show ?case by (simp add: train_init_def)
next
  case (step s s')
  from train_iteration_Continue [OF step.hyps(3)] step.IH [OF step.prems] step.prems
  show ?case
    by (auto simp: next_project_gradient_mode_def split: if_splits)
qed


section \<open>Claims about \<open>train\<close>\<close>



text \<open>
  The two preconditions are needed. With all four weights zero the loss is the float
  \<open>0.\<close> and \<open>loss.item()\<close> raises before the convergence test, though the objectives are
  within the tolerances; with an empty sample tensor \<open>torch.stack\<close> raises before the
  loop.
\<close>

lemma train_without_tensor_loss:
  "train ((init (1 / 10) 0)\<lparr>lyapunov_positivity_sample_cost_weight := 0,
                            lyapunov_derivative_sample_cost_weight := 0,
                            lyapunov_positivity_mip_cost_weight := 0,
                            lyapunov_derivative_mip_cost_weight := 0\<rparr>)
     (stub (\<lambda>_. - 1 / 10000000) (\<lambda>_. 2 / 100000)) 0 [1] = Inl AttributeError \<and>
   train (init (1 / 10) 0) (stub (\<lambda>_. - 1 / 10000000) (\<lambda>_. 2 / 100000)) 0 [] =
     Inl RuntimeError"
  by (simp add: train_def stack_next_states_def train_optimizer_def train_init_def init_def
      train_iteration_def total_loss_def Let_def set_weight_def mip_loss_loop_def
      loss_is_tensor_def yields_tensor_def)

text \<open>
  C7. Under \<open>ProjectGradientMethod.ALTERNATE\<close> the projection mode of \<open>train\<close> alternates
  strictly from one iteration to the next: iteration 0 projects with \<open>LOSS2\<close> (the
  derivative loss is the primary one), and the mode flips at every later iteration. The
  mode of an iteration that takes a gradient step depends on the parity of the iteration
  count alone. \<open>s\<close> is the state at the start of the iteration, \<open>s'\<close> the state after it.
\<close>

theorem train_alternate_projection:
  assumes alt: "project_gradient_method self = ALTERNATE"
    and reach: "train_reaches self sys (train_init self sys \<theta> opt xs) s"
    and i: "iter_count s < max_iterations self"
    and it: "train_iteration self sys s = Inr (Continue s')"
  shows "project_gradient_mode s' = Some (if even (iter_count s) then LOSS2 else LOSS1) \<and>
         gradients s' ! iter_count s =
           Some (project_gradient sys (relu s) (positivity_state_samples s)
                   (derivative_state_samples s) (derivative_state_samples_next s)
                   (if even (iter_count s) then LOSS2 else LOSS1))"
proof -
  have reach': "train_reaches self sys (train_init self sys \<theta> opt xs) s'"
    using reach i it by (rule train_reaches.step)
  have c: "iter_count s' = Suc (iter_count s)"
    using it by (rule train_iteration_iter_count)
  have m: "project_gradient_mode s' = Some (if even (iter_count s) then LOSS2 else LOSS1)"
    using train_reaches_alternate [OF reach' alt] c by simp
  have "project_gradient_method self \<noteq> NONE"
    using alt by simp
  from train_iteration_gradient [OF it this] m
  have "gradients s' =
          (gradients s)[iter_count s := Some (project_gradient sys (relu s)
             (positivity_state_samples s) (derivative_state_samples s)
             (derivative_state_samples_next s)
             (if even (iter_count s) then LOSS2 else LOSS1))]"
    by auto
  moreover have "iter_count s < length (gradients s)"
    using train_reaches_histories [OF reach] i by simp
  ultimately show ?thesis
    using m by simp
qed

text \<open>
  An instance: the first two iterations of a run that does not converge use \<open>LOSS2\<close>,
  then \<open>LOSS1\<close>.
\<close>

theorem train_alternate_projection_witness:
  "\<exists>s1 s2.
     train_iteration
       ((init (1 / 10) 0)\<lparr>project_gradient_method := ALTERNATE\<rparr>)
       (stub (\<lambda>_. - 1) (\<lambda>_. 1))
       (train_init ((init (1 / 10) 0)\<lparr>project_gradient_method := ALTERNATE\<rparr>)
          (stub (\<lambda>_. - 1) (\<lambda>_. 1)) 0 () [1]) = Inr (Continue s1) \<and>
     train_iteration
       ((init (1 / 10) 0)\<lparr>project_gradient_method := ALTERNATE\<rparr>)
       (stub (\<lambda>_. - 1) (\<lambda>_. 1)) s1 = Inr (Continue s2) \<and>
     project_gradient_mode s1 = Some LOSS2 \<and> project_gradient_mode s2 = Some LOSS1"
proof -
  let ?self = "(init (1 / 10) (0::real))\<lparr>project_gradient_method := ALTERNATE\<rparr>"
  let ?sys = "stub (\<lambda>_. - 1) (\<lambda>_. 1)"
  let ?s0 = "train_init ?self ?sys (0::nat) () [1]"
  have alt: "project_gradient_method ?self = ALTERNATE"
    by simp
  have nc: "\<And>r \<theta> ps ds dn. total_loss ?self ?sys \<theta> ps ds dn None None None None = Inr r \<Longrightarrow>
            \<not> train_converged ?self (positivity_mip_objective r) (derivative_mip_objective r)"
    by (simp add: total_loss_sample_losses(4,5) train_converged_def init_def stub_def
        lyapunov_positivity_mip_def lyapunov_derivative_mip_def)
  have adv: "\<not> add_adversarial_state_to_training ?self"
    by (simp add: init_def)
  have r0: "train_reaches ?self ?sys ?s0 ?s0"
    by (rule train_reaches.start)
  have i0: "iter_count ?s0 < max_iterations ?self"
    by (simp add: train_init_def init_def)
  have l0: "length (derivative_state_samples_next ?s0) = length (derivative_state_samples ?s0)"
    by (simp add: train_init_def)
  obtain t0 where t0:
    "total_loss ?self ?sys (relu ?s0) (positivity_state_samples ?s0)
       (derivative_state_samples ?s0) (derivative_state_samples_next ?s0)
       None None None None = Inr t0"
    using total_loss_succeeds [of ?self ?sys "relu ?s0" "positivity_state_samples ?s0"
        "derivative_state_samples ?s0" "derivative_state_samples_next ?s0"
        None None None None] l0 adv
    by auto
  have tn: "loss_is_tensor r"
    if "total_loss ?self ?sys \<theta> ps ds dn None None None None = Inr r" "ds \<noteq> []"
    for r \<theta> ps ds dn
    using total_loss_tensor [OF that(1)] that(2) by (simp add: set_weight_def init_def)
  have ne0: "derivative_state_samples ?s0 \<noteq> []"
    by (simp add: train_init_def)
  have "iter_count ?s0 = 0"
    by (simp add: train_init_def)
  with train_iteration_continues [OF t0 tn [OF t0 ne0] nc [OF t0]]
  obtain s1 where s1: "train_iteration ?self ?sys ?s0 = Inr (Continue s1)"
    by blast
  have r1: "train_reaches ?self ?sys ?s0 s1"
    using r0 i0 s1 by (rule train_reaches.step)
  have c1: "iter_count s1 = 1"
    using train_iteration_iter_count [OF s1] by (simp add: train_init_def)
  have i1: "iter_count s1 < max_iterations ?self"
    by (simp add: c1 init_def)
  note m1 = train_alternate_projection [OF alt r0 i0 s1]
  have l1: "length (derivative_state_samples_next s1) = length (derivative_state_samples s1)"
    using train_reaches_pools [OF r1 l0] .
  obtain t1 where t1:
    "total_loss ?self ?sys (relu s1) (positivity_state_samples s1)
       (derivative_state_samples s1) (derivative_state_samples_next s1)
       None None None None = Inr t1"
    using total_loss_succeeds [of ?self ?sys "relu s1" "positivity_state_samples s1"
        "derivative_state_samples s1" "derivative_state_samples_next s1"
        None None None None] l1 adv
    by auto
  have ne1: "derivative_state_samples s1 \<noteq> []"
    using train_iteration_Continue [OF s1] total_loss_pools(3) [OF t0 adv] t0 ne0
    by auto
  have "project_gradient_mode s1 \<noteq> None"
    using m1 by simp
  with train_iteration_continues [OF t1 tn [OF t1 ne1] nc [OF t1]]
  obtain s2 where s2: "train_iteration ?self ?sys s1 = Inr (Continue s2)"
    by blast
  note m2 = train_alternate_projection [OF alt r1 i1 s2]
  from s1 s2 m1 m2 c1 show ?thesis
    by (auto simp: train_init_def)
qed

text \<open>
  C9. Throughout every run of \<open>train\<close> the derivative sample pool and the derivative
  next state pool have equal length: \<open>train\<close> starts with one next state per sample, every
  state at the start of an iteration has pools of equal length, and so has the state
  \<open>train\<close> returns from. Each call of \<open>total_loss\<close> appends at most one entry to the
  positivity pool and at most one sample and next state pair to the derivative pools
  (none when \<open>add_adversarial_state_to_training\<close> is off), and returns derivative pools
  of equal length.
\<close>

theorem train_pools_equal_length:
  "(train_reaches self sys (train_init self sys \<theta> opt xs) s \<longrightarrow>
      length (derivative_state_samples_next s) = length (derivative_state_samples s) \<and>
      (\<forall>s' res. train_iteration self sys s = Inr (Return s' res) \<longrightarrow>
         length (derivative_state_samples_next s') = length (derivative_state_samples s'))) \<and>
   length (derivative_state_samples_next (train_init self sys \<theta> opt xs)) = length xs \<and>
   length (derivative_state_samples (train_init self sys \<theta> opt xs)) = length xs \<and>
   (total_loss self' sys' \<theta>' ps ds dn w1 w2 w3 w4 = Inr r \<longrightarrow>
      length (derivative_state_samples_next_ret r) = length (derivative_state_samples_ret r) \<and>
      (\<exists>ap ad an.
         positivity_state_samples_ret r = ps @ ap \<and>
         derivative_state_samples_ret r = ds @ ad \<and>
         derivative_state_samples_next_ret r = dn @ an \<and>
         length ap \<le> 1 \<and> length ad \<le> 1 \<and> length an = length ad \<and>
         (\<not> add_adversarial_state_to_training self' \<longrightarrow> ap = [] \<and> ad = [])))"
proof (intro conjI impI allI)
  assume reach: "train_reaches self sys (train_init self sys \<theta> opt xs) s"
  have l0: "length (derivative_state_samples_next (train_init self sys \<theta> opt xs)) =
            length (derivative_state_samples (train_init self sys \<theta> opt xs))"
    by (simp add: train_init_def)
  show "length (derivative_state_samples_next s) = length (derivative_state_samples s)"
    using train_reaches_pools [OF reach l0] .
  fix s' res
  assume "train_iteration self sys s = Inr (Return s' res)"
  from train_iteration_Return [OF this]
  show "length (derivative_state_samples_next s') = length (derivative_state_samples s')"
    by (auto dest: total_loss_ret_lengths)
next
  show "length (derivative_state_samples_next (train_init self sys \<theta> opt xs)) = length xs"
    by (simp add: train_init_def)
  show "length (derivative_state_samples (train_init self sys \<theta> opt xs)) = length xs"
    by (simp add: train_init_def)
next
  assume r: "total_loss self' sys' \<theta>' ps ds dn w1 w2 w3 w4 = Inr r"
  show "length (derivative_state_samples_next_ret r) = length (derivative_state_samples_ret r)"
    using total_loss_ret_lengths [OF r] .
  show "\<exists>ap ad an.
         positivity_state_samples_ret r = ps @ ap \<and>
         derivative_state_samples_ret r = ds @ ad \<and>
         derivative_state_samples_next_ret r = dn @ an \<and>
         length ap \<le> 1 \<and> length ad \<le> 1 \<and> length an = length ad \<and>
         (\<not> add_adversarial_state_to_training self' \<longrightarrow> ap = [] \<and> ad = [])"
  proof (cases "add_adversarial_state_to_training self'")
    case True
    from total_loss_pools(2) [OF r True] obtain m where
      "positivity_state_samples_ret r = ps @ [x_val (lyapunov_positivity_mip self' sys' \<theta>')]"
      "derivative_state_samples_ret r = ds @ [x_val (lyapunov_derivative_mip self' sys' \<theta>')]"
      "derivative_state_samples_next_ret r =
         dn @ [step_forward_mode sys' (x_val (lyapunov_derivative_mip self' sys' \<theta>')) m]"
      by blast
    with True show ?thesis
      by (intro exI [of _ "[x_val (lyapunov_positivity_mip self' sys' \<theta>')]"]
                exI [of _ "[x_val (lyapunov_derivative_mip self' sys' \<theta>')]"]
                exI [of _ "[step_forward_mode sys' (x_val (lyapunov_derivative_mip self' sys' \<theta>')) m]"])
         simp
  next
    case False
    from total_loss_pools(3) [OF r False] False show ?thesis
      by (intro exI [of _ "[]"]) simp
  qed
qed

text \<open>
  An instance with adversarial states switched on: after the first iteration each pool
  has grown by one entry, the derivative pools by the pair \<open>-1\<close>, \<open>-1/2\<close>.
\<close>

theorem train_pools_equal_length_witness:
  "\<exists>s1. train_iteration
          ((init (1 / 10) 0)\<lparr>add_adversarial_state_to_training := True\<rparr>)
          (stub (\<lambda>_. - 1) (\<lambda>_. 1))
          (train_init ((init (1 / 10) 0)\<lparr>add_adversarial_state_to_training := True\<rparr>)
             (stub (\<lambda>_. - 1) (\<lambda>_. 1)) 0 () [1, 3]) = Inr (Continue s1) \<and>
        positivity_state_samples s1 = [1, 3, 1] \<and>
        derivative_state_samples s1 = [1, 3, - 1] \<and>
        derivative_state_samples_next s1 = [1 / 2, 3 / 2, - 1 / 2] \<and>
        length (derivative_state_samples_next s1) = length (derivative_state_samples s1)"
proof -
  let ?self = "(init (1 / 10) (0::real))\<lparr>add_adversarial_state_to_training := True\<rparr>"
  let ?sys = "stub (\<lambda>_. - 1) (\<lambda>_. 1)"
  let ?s0 = "train_init ?self ?sys (0::nat) () [1, 3]"
  have mode: "adversarial_mode (mode_val (lyapunov_derivative_mip ?self ?sys \<theta>)) = Inr 1" for \<theta>
    by (simp add: adversarial_mode_def lyapunov_derivative_mip_def stub_def)
  obtain t0 where t0:
    "total_loss ?self ?sys (relu ?s0) (positivity_state_samples ?s0)
       (derivative_state_samples ?s0) (derivative_state_samples_next ?s0)
       None None None None = Inr t0"
    using total_loss_succeeds [of ?self ?sys "relu ?s0" "positivity_state_samples ?s0"
        "derivative_state_samples ?s0" "derivative_state_samples_next ?s0"
        None None None None] mode
    by (auto simp: train_init_def)
  have nc: "\<not> train_converged ?self (positivity_mip_objective t0) (derivative_mip_objective t0)"
    by (simp add: total_loss_sample_losses(4,5) [OF t0] train_converged_def init_def stub_def
        lyapunov_positivity_mip_def lyapunov_derivative_mip_def)
  have tensor: "loss_is_tensor t0"
    by (rule total_loss_tensor [OF t0]) (simp add: set_weight_def init_def train_init_def)
  have "project_gradient_method ?self \<noteq> ALTERNATE"
    by (simp add: init_def)
  with train_iteration_continues [OF t0 tensor nc]
  obtain s1 where s1: "train_iteration ?self ?sys ?s0 = Inr (Continue s1)"
    by blast
  have r1: "train_reaches ?self ?sys ?s0 s1"
    by (rule train_reaches.step [OF train_reaches.start _ s1])
      (simp add: train_init_def init_def)
  from train_pools_equal_length [of ?self ?sys 0 "()" "[1, 3]" s1, THEN conjunct1] r1
  have len: "length (derivative_state_samples_next s1) = length (derivative_state_samples s1)"
    by blast
  from train_iteration_Continue [OF s1] t0 total_loss_pools(2) [OF t0] mode
  have "positivity_state_samples s1 = [1, 3, 1] \<and>
        derivative_state_samples s1 = [1, 3, - 1] \<and>
        derivative_state_samples_next s1 = [1 / 2, 3 / 2, - 1 / 2]"
    by (auto simp: train_init_def lyapunov_positivity_mip_def lyapunov_derivative_mip_def stub_def)
  with s1 len show ?thesis by blast
qed

section \<open>Claims about the tensors \<open>total_loss\<close> is given\<close>

text \<open>
  C10. \<open>total_loss\<close> never mutates its input sample tensors: every tensor of the store,
  the three arguments among them, holds after the call what it held before. With
  \<open>add_adversarial_state_to_training\<close> on, the grown pools are three newly allocated
  tensors (their references are the first three free ones); with it off, the arguments
  themselves are returned and nothing is allocated.
\<close>

theorem total_loss_store_frame:
  assumes run: "total_loss_store self sys \<theta> st pa da na w1 w2 w3 w4 = Inr (st', (pa', da', na'), r)"
    and refs: "pa < length st" "da < length st" "na < length st"
  shows "take (length st) st' = st \<and>
         st' ! pa = st ! pa \<and> st' ! da = st ! da \<and> st' ! na = st ! na \<and>
         total_loss self sys \<theta> (st ! pa) (st ! da) (st ! na) w1 w2 w3 w4 = Inr r \<and>
         st' ! pa' = positivity_state_samples_ret r \<and>
         st' ! da' = derivative_state_samples_ret r \<and>
         st' ! na' = derivative_state_samples_next_ret r \<and>
         (if add_adversarial_state_to_training self
          then length st' = length st + 3 \<and>
               pa' = length st \<and> da' = length st + 1 \<and> na' = length st + 2
          else st' = st \<and> pa' = pa \<and> da' = da \<and> na' = na)"
proof -
  from run obtain r0 where
    r0: "total_loss self sys \<theta> (st ! pa) (st ! da) (st ! na) w1 w2 w3 w4 = Inr r0"
    by (auto simp: total_loss_store_def split: sum.splits)
  show ?thesis
  proof (cases "add_adversarial_state_to_training self")
    case False
    with run r0 have "st' = st" "pa' = pa" "da' = da" "na' = na" "r = r0"
      by (simp_all add: total_loss_store_def)
    with False r0 total_loss_pools(3) [OF r0 False] show ?thesis
      by simp
  next
    case True
    from total_loss_pools(2) [OF r0 True] obtain m where
      m: "adversarial_mode (mode_val (lyapunov_derivative_mip self sys \<theta>)) = Inr m"
      and p: "positivity_state_samples_ret r0 =
                st ! pa @ [x_val (lyapunov_positivity_mip self sys \<theta>)]"
      and d: "derivative_state_samples_ret r0 =
                st ! da @ [x_val (lyapunov_derivative_mip self sys \<theta>)]"
      and n: "derivative_state_samples_next_ret r0 =
                st ! na @ [step_forward_mode sys (x_val (lyapunov_derivative_mip self sys \<theta>)) m]"
      by blast
    from run r0 True m refs have
      raw: "st' = st @ [st ! pa @ [x_val (lyapunov_positivity_mip self sys \<theta>)],
                        st ! da @ [x_val (lyapunov_derivative_mip self sys \<theta>)],
                        st ! na @ [step_forward_mode sys
                                     (x_val (lyapunov_derivative_mip self sys \<theta>)) m]]"
      and rf: "pa' = length st" "da' = length st + 1" "na' = length st + 2" "r = r0"
      by (auto simp: total_loss_store_def torch_cat_def Let_def nth_append)
    have st': "st' = st @ [positivity_state_samples_ret r0, derivative_state_samples_ret r0,
                          derivative_state_samples_next_ret r0]"
      by (simp only: raw p d n)
    from st' rf r0 True refs show ?thesis
      by (simp add: nth_append)
  qed
qed

text \<open>
  An instance where the first two arguments are the same tensor, as in
  \<open>train_lyapunov_on_samples\<close>: the store of two tensors grows to five, and the two it
  had are unchanged.
\<close>

theorem total_loss_store_frame_witness:
  "\<exists>st' r. total_loss_store
             ((init (1 / 10) 0)\<lparr>add_adversarial_state_to_training := True\<rparr>)
             (stub (\<lambda>_. - 1) (\<lambda>_. 1)) 0 [[1, 3], [1 / 2, 3 / 2]] 0 0 1
             None None None None = Inr (st', (2, 3, 4), r) \<and>
           st' = [[1, 3], [1 / 2, 3 / 2], [1, 3, 1], [1, 3, - 1], [1 / 2, 3 / 2, - 1 / 2]]"
proof -
  let ?self = "(init (1 / 10) (0::real))\<lparr>add_adversarial_state_to_training := True\<rparr>"
  let ?sys = "stub (\<lambda>_. - 1) (\<lambda>_. 1)"
  let ?st = "[[1, 3], [1 / 2, 3 / 2 :: real]]"
  have mode: "adversarial_mode (mode_val (lyapunov_derivative_mip ?self ?sys (0::nat))) = Inr 1"
    by (simp add: adversarial_mode_def lyapunov_derivative_mip_def stub_def)
  obtain t where t: "total_loss ?self ?sys (0::nat) (?st ! 0) (?st ! 0) (?st ! 1) None None None None = Inr t"
    using total_loss_succeeds [of ?self ?sys 0 "?st ! 0" "?st ! 0" "?st ! 1"
        None None None None] mode
    by auto
  have "\<exists>st' pa' da' na' r. total_loss_store ?self ?sys (0::nat) ?st 0 0 1 None None None None =
          Inr (st', (pa', da', na'), r)"
    using t mode by (simp add: total_loss_store_def torch_cat_def Let_def)
  then obtain st' pa' da' na' r where
    run: "total_loss_store ?self ?sys (0::nat) ?st 0 0 1 None None None None =
            Inr (st', (pa', da', na'), r)"
    by blast
  have refs: "0 < length ?st" "1 < length ?st"
    by simp_all
  note f = total_loss_store_frame [OF run refs(1) refs(1) refs(2)]
  have r: "total_loss ?self ?sys (0::nat) [1, 3] [1, 3] [1 / 2, 3 / 2] None None None None = Inr r"
    using f by simp
  have pools: "positivity_state_samples_ret r = [1, 3, 1]"
    "derivative_state_samples_ret r = [1, 3, - 1]"
    "derivative_state_samples_next_ret r = [1 / 2, 3 / 2, - 1 / 2]"
    using total_loss_pools(2) [OF r] mode
    by (auto simp: lyapunov_positivity_mip_def lyapunov_derivative_mip_def stub_def)
  have ids: "pa' = 2" "da' = 3" "na' = 4" "length st' = 5"
    using f by simp_all
  have "st' = take 2 st' @ [st' ! 2, st' ! 3, st' ! 4]"
    using ids(4) by (auto simp: list_eq_iff_nth_eq nth_append less_Suc_eq numeral_eq_Suc)
  moreover have "take 2 st' = ?st"
    using f by (simp add: numeral_2_eq_2)
  ultimately have "st' = [[1, 3], [1 / 2, 3 / 2], [1, 3, 1], [1, 3, - 1], [1 / 2, 3 / 2, - 1 / 2]]"
    using f ids pools by simp
  with run ids show ?thesis by blast
qed

section \<open>The convergence test of \<open>train_with_line_search\<close>\<close>

text \<open>
  C2 says that \<open>train_with_line_search\<close> returns \<open>True\<close> exactly when the positivity
  objective is at least \<open>-lyapunov_positivity_convergence_tol\<close> and the derivative
  objective is at most \<open>lyapunov_derivative_convergence_tol\<close>, as \<open>train\<close> does. Its \<open>if\<close>
  tests \<open>positivity cost < tol\<close> instead. With the line search optimizer \<open>GD\<close>,
  \<open>min_improvement\<close> set and three iterations: a positivity objective of \<open>-1\<close> (a
  violation) with derivative objective \<open>0\<close> makes it return \<open>True\<close> after its first
  step, though the test of \<open>train\<close> fails there; a positivity objective of \<open>1\<close> with
  derivative objective \<open>0\<close> passes the test of \<open>train\<close>, and \<open>train_with_line_search\<close>
  runs out of iterations and returns \<open>False\<close>.
\<close>

theorem train_with_line_search_test_differs:
  "train_with_line_search
     ((init (1 / 10) 0)\<lparr>optimizer := ''GD'', min_improvement := Some 0, max_iterations := 3\<rparr>)
     (stub (\<lambda>_. - 1) (\<lambda>_. 0)) 0 [1] = Inr (1, True) \<and>
   \<not> train_converged
     ((init (1 / 10) (0::real))\<lparr>optimizer := ''GD'', min_improvement := Some 0,
                                max_iterations := 3\<rparr>) (- 1) 0 \<and>
   train_with_line_search
     ((init (1 / 10) 0)\<lparr>optimizer := ''GD'', min_improvement := Some 0, max_iterations := 3\<rparr>)
     (stub (\<lambda>_. 1) (\<lambda>_. 0)) 0 [1] = Inr (2, False) \<and>
   train_converged
     ((init (1 / 10) (0::real))\<lparr>optimizer := ''GD'', min_improvement := Some 0,
                                max_iterations := 3\<rparr>) 1 0"
  by (simp add: train_with_line_search_def init_def Let_def line_search_iteration_def
      total_loss_def stub_def closure_def line_search_converged_def train_converged_def
      lyapunov_positivity_mip_def lyapunov_derivative_mip_def set_weight_def
      mip_loss_loop_def mip_loss_step_def in_pool_def mean_def stub_V_def pool_param_def
      stack_next_states_def loss_is_tensor_def yields_tensor_def)

section \<open>The loop of \<open>train_lyapunov_on_samples\<close>\<close>

lemma on_samples_round:
  assumes inv: "on_samples_inv self sys \<theta> xs k s"
    and ns: "ns = map (step_forward sys) xs"
    and r: "total_loss self sys (relu_at self sys \<theta> xs k) xs xs ns None None (Some 0) (Some 0) = Inr r"
  shows "if breaks (mip_loss_at self sys \<theta> xs) limit k
         then \<exists>b. on_samples_iteration self sys xs ns limit k s = Inr (Break b) \<and>
                  on_samples_broke self sys \<theta> xs k b
         else if loss_is_tensor r
         then \<exists>s'. on_samples_iteration self sys xs ns limit k s = Inr (Next s') \<and>
                  on_samples_inv self sys \<theta> xs (Suc k) s'
         else on_samples_iteration self sys xs ns limit k s = Inl AttributeError"
proof -
  have m: "mip_loss self (positivity_mip_objective r) (derivative_mip_objective r) =
           mip_loss_at self sys \<theta> xs k"
    by (simp add: total_loss_sample_losses(4,5) [OF r] mip_loss_at_def)
  have rel: "relu s = relu_at self sys \<theta> xs k"
    using inv by (simp add: on_samples_inv_def)
  have nxt: "on_samples_after self sys \<theta> xs (Suc k) =
      optimizer_step sys (optimizer_state s) (relu s)
        (loss_backward sys (relu s) xs xs ns (Some 0) (Some 0))"
    using inv ns by (simp add: on_samples_inv_def relu_at_def split: prod.splits)
  show ?thesis
  proof (cases k)
    case 0
    with inv r m rel nxt show ?thesis
      by (auto simp: on_samples_iteration_def on_samples_inv_def on_samples_step_def
          on_samples_broke_def breaks_def below_def above_def Let_def relu_at_def)
  next
    case (Suc j)
    with inv r m rel nxt show ?thesis
      by (auto simp: on_samples_iteration_def on_samples_inv_def on_samples_step_def
          on_samples_broke_def breaks_def below_def above_def Let_def relu_at_def)
  qed
qed

lemma on_samples_round_fails:
  assumes inv: "on_samples_inv self sys \<theta> xs k s"
    and r: "total_loss self sys (relu_at self sys \<theta> xs k) xs xs ns None None (Some 0) (Some 0) = Inl e"
  shows "on_samples_iteration self sys xs ns limit k s = Inl e"
  using assms by (simp add: on_samples_iteration_def on_samples_inv_def)

lemma on_samples_loop_upt:
  "on_samples_loop self sys xs ns limit [a..<a + Suc d] s =
     (case on_samples_iteration self sys xs ns limit a s of
        Inl e \<Rightarrow> Inl e
      | Inr (Break s') \<Rightarrow> Inr s'
      | Inr (Next s') \<Rightarrow> on_samples_loop self sys xs ns limit [Suc a..<Suc a + d] s')"
proof -
  have l: "[a..<a + Suc d] = a # [Suc a..<Suc a + d]"
    by (simp add: upt_conv_Cons)
  show ?thesis
    by (simp only: l on_samples_loop.simps)
qed

lemma on_samples_loop_result:
  assumes ns: "ns = map (step_forward sys) xs"
  shows "on_samples_inv self sys \<theta> xs a s \<Longrightarrow>
         on_samples_loop self sys xs ns limit [a..<a + d] s = Inr s' \<Longrightarrow>
         (\<exists>k. a \<le> k \<and> k < a + d \<and> breaks (mip_loss_at self sys \<theta> xs) limit k \<and>
              (\<forall>j. a \<le> j \<and> j < k \<longrightarrow> \<not> breaks (mip_loss_at self sys \<theta> xs) limit j) \<and>
              on_samples_broke self sys \<theta> xs k s') \<or>
         ((\<forall>j. a \<le> j \<and> j < a + d \<longrightarrow> \<not> breaks (mip_loss_at self sys \<theta> xs) limit j) \<and>
          on_samples_inv self sys \<theta> xs (a + d) s')"
proof (induction d arbitrary: a s)
  case 0
  then show ?case by auto
next
  case (Suc d)
  let ?m = "mip_loss_at self sys \<theta> xs"
  note l = on_samples_loop_upt [of self sys xs ns limit a d s]
  show ?case
  proof (cases "total_loss self sys (relu_at self sys \<theta> xs a) xs xs ns None None (Some 0) (Some 0)")
    case (Inl e)
    have "on_samples_loop self sys xs ns limit [a..<a + Suc d] s = Inl e"
      by (simp only: l on_samples_round_fails [OF Suc.prems(1) Inl] sum.case)
    with Suc.prems(2) show ?thesis
      by simp
  next
    case (Inr r)
    note round = on_samples_round [OF Suc.prems(1) ns Inr, of limit]
    show ?thesis
    proof (cases "breaks ?m limit a")
      case True
      with round obtain b where
        b: "on_samples_iteration self sys xs ns limit a s = Inr (Break b)"
        "on_samples_broke self sys \<theta> xs a b"
        by auto
      have "on_samples_loop self sys xs ns limit [a..<a + Suc d] s = Inr b"
        by (simp only: l b(1) sum.case loop_step.case)
      with Suc.prems(2) have "s' = b"
        by simp
      with b True show ?thesis
        by (intro disjI1 exI [of _ a]) auto
    next
      case False
      have tensor: "loss_is_tensor r"
      proof (rule ccontr)
        assume "\<not> loss_is_tensor r"
        with round False have
          f: "on_samples_iteration self sys xs ns limit a s = Inl AttributeError"
          by simp
        have "on_samples_loop self sys xs ns limit [a..<a + Suc d] s = Inl AttributeError"
          by (simp only: l f sum.case)
        with Suc.prems(2) show False
          by simp
      qed
      with round False obtain s'' where
        n: "on_samples_iteration self sys xs ns limit a s = Inr (Next s'')"
        "on_samples_inv self sys \<theta> xs (Suc a) s''"
        by auto
      have "on_samples_loop self sys xs ns limit [a..<a + Suc d] s =
            on_samples_loop self sys xs ns limit [Suc a..<Suc a + d] s''"
        by (simp only: l n(1) sum.case loop_step.case)
      with Suc.prems(2) have
        "on_samples_loop self sys xs ns limit [Suc a..<Suc a + d] s'' = Inr s'"
        by simp
      from Suc.IH [OF n(2) this] show ?thesis
      proof
        assume "\<exists>k\<ge>Suc a. k < Suc a + d \<and> breaks ?m limit k \<and>
                  (\<forall>j. Suc a \<le> j \<and> j < k \<longrightarrow> \<not> breaks ?m limit j) \<and>
                  on_samples_broke self sys \<theta> xs k s'"
        then obtain k where k: "Suc a \<le> k" "k < Suc a + d" "breaks ?m limit k"
          "\<forall>j. Suc a \<le> j \<and> j < k \<longrightarrow> \<not> breaks ?m limit j"
          "on_samples_broke self sys \<theta> xs k s'"
          by blast
        have "\<forall>j. a \<le> j \<and> j < k \<longrightarrow> \<not> breaks ?m limit j"
          using k(4) False by (metis Suc_leI le_neq_implies_less)
        with k show ?thesis
          by (intro disjI1 exI [of _ k]) auto
      next
        assume h: "(\<forall>j. Suc a \<le> j \<and> j < Suc a + d \<longrightarrow> \<not> breaks ?m limit j) \<and>
                on_samples_inv self sys \<theta> xs (Suc a + d) s'"
        have "\<forall>j. a \<le> j \<and> j < a + Suc d \<longrightarrow> \<not> breaks ?m limit j"
          using h False by (metis Suc_leI le_neq_implies_less add_Suc_shift add_Suc_right)
        with h show ?thesis
          by simp
      qed
    qed
  qed
qed


lemma best_round_le: "best_round m k \<le> k"
  by (induction k) auto

lemma best_round_min: "j \<le> k \<Longrightarrow> m (best_round m k) \<le> m j"
proof (induction k)
  case 0
  then show ?case by simp
next
  case (Suc k)
  then show ?case
    by (cases "j = Suc k") (auto simp: le_Suc_eq intro: order_trans less_imp_le)
qed

lemma best_round_first: "j < best_round m k \<Longrightarrow> m (best_round m k) < m j"
proof (induction k)
  case 0
  then show ?case by simp
next
  case (Suc k)
  show ?case
  proof (cases "m (Suc k) < m (best_round m k)")
    case True
    with Suc.prems have "j \<le> k" by simp
    from best_round_min [OF this, of m] True show ?thesis by simp
  next
    case False
    with Suc show ?thesis by simp
  qed
qed

lemma best_round_Min: "m (best_round m k) = Min (m ` {..k})"
proof (rule sym, rule Min_eqI)
  show "finite (m ` {..k})" by simp
  show "\<And>y. y \<in> m ` {..k} \<Longrightarrow> m (best_round m k) \<le> y"
    by (auto intro: best_round_min)
  show "m (best_round m k) \<in> m ` {..k}"
    using best_round_le [of m k] by auto
qed


lemma on_samples_inv_start:
  "on_samples_inv self sys \<theta> xs 0
     \<lparr>iter_count = 0, relu = \<theta>, optimizer_state = adam sys \<theta> (learning_rate self),
      best_loss = None, best_relu = None, num_increasing_iterations = 0,
      previous_mip_loss = None\<rparr>"
  by (simp add: on_samples_inv_def relu_at_def)

lemma train_lyapunov_on_samples_result:
  assumes run: "train_lyapunov_on_samples self sys \<theta> xs n limit = Inr s'"
  shows "iter_count s' < n \<and>
         relu s' = relu_at self sys \<theta> xs (best_round (mip_loss_at self sys \<theta> xs) (iter_count s')) \<and>
         best_relu s' = Some (relu s') \<and>
         best_loss s' =
           Some (mip_loss_at self sys \<theta> xs
                   (best_round (mip_loss_at self sys \<theta> xs) (iter_count s'))) \<and>
         num_increasing_iterations s' =
           increasing_run (mip_loss_at self sys \<theta> xs) (iter_count s') \<and>
         (\<forall>j<iter_count s'. \<not> breaks (mip_loss_at self sys \<theta> xs) limit j) \<and>
         (breaks (mip_loss_at self sys \<theta> xs) limit (iter_count s') \<or> Suc (iter_count s') = n)"
proof -
  let ?m = "mip_loss_at self sys \<theta> xs"
  let ?s0 = "\<lparr>iter_count = 0, relu = \<theta>, optimizer_state = adam sys \<theta> (learning_rate self),
      best_loss = None, best_relu = None, num_increasing_iterations = 0,
      previous_mip_loss = None\<rparr>"
  from run obtain s where
    loop: "on_samples_loop self sys xs (map (step_forward sys) xs) limit [0..<0 + n] ?s0 = Inr s"
    and best: "best_relu s \<noteq> None" and s': "s' = s\<lparr>relu := the (best_relu s)\<rparr>"
    by (auto simp: train_lyapunov_on_samples_def stack_next_states_def
        split: sum.splits option.splits if_splits)
  from on_samples_loop_result [OF refl on_samples_inv_start loop]
  show ?thesis
  proof
    assume "\<exists>k\<ge>0. k < 0 + n \<and> breaks ?m limit k \<and>
              (\<forall>j. 0 \<le> j \<and> j < k \<longrightarrow> \<not> breaks ?m limit j) \<and>
              on_samples_broke self sys \<theta> xs k s"
    then show ?thesis
      using s' by (auto simp: on_samples_broke_def)
  next
    assume h: "(\<forall>j. 0 \<le> j \<and> j < 0 + n \<longrightarrow> \<not> breaks ?m limit j) \<and>
               on_samples_inv self sys \<theta> xs (0 + n) s"
    show ?thesis
    proof (cases n)
      case 0
      with h best show ?thesis
        by (simp add: on_samples_inv_def)
    next
      case (Suc j)
      with h s' show ?thesis
        by (auto simp: on_samples_inv_def)
    qed
  qed
qed






section \<open>The stub in \<open>train_lyapunov_on_samples\<close>\<close>

lemma stub_after: "on_samples_after self (stub pos der) \<theta> xs k = ((), \<theta> + k)"
  by (induction k) (simp_all add: stub_def)

lemma stub_relu_at: "relu_at self (stub pos der) \<theta> xs k = \<theta> + k"
  by (simp add: relu_at_def stub_after)

lemma stub_mip_loss_at:
  "mip_loss_at self (stub pos der) \<theta> xs k =
     lyapunov_positivity_mip_cost_weight self * - pos (\<theta> + k) +
     lyapunov_derivative_mip_cost_weight self * der (\<theta> + k)"
  unfolding mip_loss_at_def stub_relu_at
  by (simp add: mip_loss_def lyapunov_positivity_mip_def lyapunov_derivative_mip_def stub_def)


lemmas on_samples_run =
  train_lyapunov_on_samples_def on_samples_iteration_def on_samples_step_def
  total_loss_def init_def stub_def Let_def mip_loss_def below_def above_def
  lyapunov_positivity_mip_def lyapunov_derivative_mip_def set_weight_def
  mip_loss_loop_def in_pool_def mean_def stub_V_def pool_param_def
  stack_next_states_def loss_is_tensor_def yields_tensor_def

section \<open>Claims about \<open>train_lyapunov_on_samples\<close>\<close>

text \<open>
  C3 has the snapshot of \<open>train_lyapunov_on_samples\<close> keyed by the clamped scalar
  \<open>weight_pos * max(0, -positivity_objective) + weight_der * max(0, derivative_objective)\<close>.
  The loop computes \<open>weight_pos * -positivity_objective + weight_der * derivative_objective\<close>
  and clamps nothing. With the objectives \<open>(0, 0)\<close> in round 0 and \<open>(1, 0)\<close> in round 1
  the clamped scalar is 0 in both rounds, so it does not improve in round 1; the scalar
  of the loop falls from 0 to -10, the snapshot is replaced in round 1, and the network
  is restored to the parameters of round 1.
\<close>

theorem on_samples_snapshot_counterexample:
  "map_sum id relu
     (train_lyapunov_on_samples (init (1 / 10) 0) (stub real (\<lambda>_. 0)) 0 [1] 2 5) = Inr 1 \<and>
   mip_loss (init (1 / 10) (0::real)) 1 0 = - 10 \<and>
   mip_loss (init (1 / 10) (0::real)) 0 0 = 0 \<and>
   clamped_mip_loss (init (1 / 10) (0::real)) 1 0 = 0 \<and>
   clamped_mip_loss (init (1 / 10) (0::real)) 0 0 = 0"
  by (simp add: on_samples_run clamped_mip_loss_def upt_rec numeral_2_eq_2)

text \<open>
  C3 with the scalar of the loop. The snapshot is keyed by
  \<open>weight_pos * -positivity_objective + weight_der * derivative_objective\<close>, and it is
  replaced exactly at the rounds where this scalar strictly improves on the best (the
  least) value of the rounds before. So when \<open>train_lyapunov_on_samples\<close> returns, the
  network holds the parameters of the earliest round that attains the least scalar of
  the rounds run, and \<open>best_loss\<close> is that least scalar. \<open>iter_count s'\<close> is the last round
  run, \<open>relu_at \<dots> k\<close> the parameters at the start of round \<open>k\<close>.
\<close>

theorem on_samples_snapshot:
  assumes run: "train_lyapunov_on_samples self sys \<theta> xs n limit = Inr s'"
  shows "relu s' = relu_at self sys \<theta> xs (best_round (mip_loss_at self sys \<theta> xs) (iter_count s')) \<and>
         best_loss s' = Some (Min ((mip_loss_at self sys \<theta> xs) ` {..iter_count s'})) \<and>
         mip_loss_at self sys \<theta> xs (best_round (mip_loss_at self sys \<theta> xs) (iter_count s')) = Min ((mip_loss_at self sys \<theta> xs) ` {..iter_count s'}) \<and>
         (\<forall>j<best_round (mip_loss_at self sys \<theta> xs) (iter_count s'). Min ((mip_loss_at self sys \<theta> xs) ` {..iter_count s'}) < mip_loss_at self sys \<theta> xs j) \<and>
         (\<forall>k<iter_count s'.
            best_round (mip_loss_at self sys \<theta> xs) (Suc k) =
              (if mip_loss_at self sys \<theta> xs (Suc k) < Min ((mip_loss_at self sys \<theta> xs) ` {..k}) then Suc k else best_round (mip_loss_at self sys \<theta> xs) k)) \<and>
         (\<forall>k. mip_loss_at self sys \<theta> xs k =
            lyapunov_positivity_mip_cost_weight self *
              - ObjVal (lyapunov_positivity_mip self sys (relu_at self sys \<theta> xs k)) +
            lyapunov_derivative_mip_cost_weight self *
              ObjVal (lyapunov_derivative_mip self sys (relu_at self sys \<theta> xs k)))"
proof -
  define m where "m = mip_loss_at self sys \<theta> xs"
  note res = train_lyapunov_on_samples_result [OF run, folded m_def]
  have first: "\<forall>j<best_round m (iter_count s'). Min (m ` {..iter_count s'}) < m j"
    using best_round_first [of _ m "iter_count s'"] by (simp add: best_round_Min)
  have key: "\<forall>k. m k =
            lyapunov_positivity_mip_cost_weight self *
              - ObjVal (lyapunov_positivity_mip self sys (relu_at self sys \<theta> xs k)) +
            lyapunov_derivative_mip_cost_weight self *
              ObjVal (lyapunov_derivative_mip self sys (relu_at self sys \<theta> xs k))"
    by (simp add: m_def mip_loss_at_def mip_loss_def)
  from res first key show ?thesis
    unfolding m_def [symmetric] by (simp add: best_round_Min)
qed

text \<open>
  An instance: the scalars of six rounds are \<open>3, 2, 1, 0, 1, 2\<close>; the network is restored
  to the parameters of round 3, and \<open>best_loss\<close> is 0.
\<close>

theorem on_samples_snapshot_witness:
  "\<exists>s'. train_lyapunov_on_samples (init (1 / 10) 0)
          (stub (\<lambda>\<theta>. - (\<bar>real \<theta> - 3\<bar> / 10)) (\<lambda>_. 0)) 0 [1] 6 5 = Inr s' \<and>
        relu s' = 3 \<and> best_loss s' = Some 0"
proof -
  let ?self = "init (1 / 10) (0::real)"
  let ?sys = "stub (\<lambda>\<theta>. - (\<bar>real \<theta> - 3\<bar> / 10)) (\<lambda>_. 0)"
  have m: "mip_loss_at ?self ?sys 0 [1] k = \<bar>real k - 3\<bar>" for k
    by (simp add: stub_mip_loss_at init_def)
  have "\<exists>s'. train_lyapunov_on_samples ?self ?sys 0 [1] 6 5 = Inr s' \<and> iter_count s' = 5"
    by (simp add: on_samples_run upt_conv_Cons)
  then obtain s' where run: "train_lyapunov_on_samples ?self ?sys 0 [1] 6 5 = Inr s'"
    and last: "iter_count s' = 5"
    by blast
  have best: "best_round (mip_loss_at ?self ?sys 0 [1]) 5 = 3"
    by (simp add: eval_nat_numeral m)
  note snap = on_samples_snapshot [OF run, unfolded last best]
  from snap [THEN conjunct1] have r: "relu s' = 3"
    by (simp add: stub_relu_at)
  note b = snap [THEN conjunct2, THEN conjunct1]
  note a = snap [THEN conjunct2, THEN conjunct2, THEN conjunct1]
  have "best_loss s' = Some (mip_loss_at ?self ?sys 0 [1] 3)"
    by (simp only: a b)
  then have "best_loss s' = Some 0"
    by (simp add: m)
  with run r show ?thesis by blast
qed




end
